theory Spec2Isabelle
  imports Main "HOL-Library.Word"
begin

section \<open>Data model of \<open>src/scale.c\<close>\<close>

type_synonym u32 = "32 word"

text \<open>
  A plane pointer (\<open>uint8_t *\<close>) is an address or the null pointer. The cast to
  \<open>uint16_t *\<close> of the high bit depth path keeps the address.
\<close>

type_synonym plane_ptr = "nat option"

abbreviation NULL :: plane_ptr where
  "NULL \<equiv> None"

text \<open>
  Modelled from the spec: the constant \<open>AVIF_PLANE_COUNT_YUV\<close> and the channel index
  \<open>AVIF_CHAN_Y\<close> are declared in a header that is not part of the sources. The image has
  up to three luma/chroma planes, and plane 0 is the luma plane.
\<close>

definition AVIF_PLANE_COUNT_YUV :: nat where
  "AVIF_PLANE_COUNT_YUV = 3"

definition AVIF_CHAN_Y :: nat where
  "AVIF_CHAN_Y = 0"

text \<open>
  A C array \<open>T a[AVIF_PLANE_COUNT_YUV]\<close>: exactly three cells. The loops of the program
  index it with \<open>0 \<le> i < AVIF_PLANE_COUNT_YUV\<close> only; an index beyond the array is
  undefined behaviour in C and is never produced by the model (here it falls on the last cell).
\<close>

datatype 'a array3 = Array3 'a 'a 'a

fun aget :: "'a array3 \<Rightarrow> nat \<Rightarrow> 'a" where
  "aget (Array3 a b c) i = (if i = 0 then a else if i = 1 then b else c)"

fun aset :: "'a array3 \<Rightarrow> nat \<Rightarrow> 'a \<Rightarrow> 'a array3" where
  "aset (Array3 a b c) i v =
     (if i = 0 then Array3 v b c else if i = 1 then Array3 a v c else Array3 a b v)"

text \<open>
  Modelled from the spec: the struct \<open>avifImage\<close> is declared in a header that is not
  part of the sources. Its fields here are those of the image of the data model, under the
  names and with the types with which \<open>avifImageScale\<close> reads and writes them: 32-bit
  unsigned dimensions, depth and row bytes, plane pointers, and boolean ownership flags.
  The pixel format is an enumeration declared in the same header: it stays a type
  parameter. Every other field of the struct lives in the extension part of the record
  scheme, which no function below touches.
\<close>

record 'fmt avifImage =
  width :: u32
  height :: u32
  depth :: u32
  yuvFormat :: 'fmt
  yuvPlanes :: "plane_ptr array3"
  yuvRowBytes :: "u32 array3"
  imageOwnsYUVPlanes :: bool
  alphaPlane :: plane_ptr
  alphaRowBytes :: u32
  imageOwnsAlphaPlane :: bool

text \<open>
  Modelled from the spec: the struct \<open>avifPixelFormatInfo\<close> that
  \<open>avifGetPixelFormatInfo\<close> fills is declared in the missing header. It holds the
  horizontal and the vertical chroma shift, which are 0, 1 or more. Lines 91-94 use them
  as shift counts on a 32-bit operand, which C defines for the counts 0 to 31 only (a
  negative count or one of 32 or more is undefined behaviour). A chroma shift is therefore
  a count in that range, a 5-bit word: the model has no value for a count on which the C
  expression has none.
\<close>

type_synonym chroma_shift = "5 word"

record avifPixelFormatInfo =
  chromaShiftX :: chroma_shift
  chromaShiftY :: chroma_shift

text \<open>
  Modelled from the spec: the plane group handed to the allocator is declared in the
  missing header. The function names the luma/chroma group and the alpha plane.
\<close>

datatype avifPlanesFlags = AVIF_PLANES_YUV | AVIF_PLANES_A

text \<open>
  Modelled from the spec: the filter mode is an enumeration of libyuv, whose header is not
  part of the sources. The function passes one fixed mode, \<open>kFilterBox\<close>.
\<close>

datatype FilterMode = kFilterBox

definition AVIF_LIBYUV_FILTER_MODE :: FilterMode where
  "AVIF_LIBYUV_FILTER_MODE = kFilterBox"

text \<open>
  The calls that \<open>avifImageScale\<close> makes to its collaborators, in program order. The
  scaling entry points take (source, source stride, source width, source height,
  destination, destination stride, destination width, destination height, filter).
  \<open>avifDiagnosticsPrintf\<close> carries its format string and the values of its arguments.
\<close>

datatype call =
    avifDiagnosticsPrintf string "u32 list"
  | avifImageAllocatePlanes avifPlanesFlags
  | ScalePlane plane_ptr u32 u32 u32 plane_ptr u32 u32 u32 FilterMode
  | ScalePlane_16 plane_ptr u32 u32 u32 plane_ptr u32 u32 u32 FilterMode
  | avifFree plane_ptr

text \<open>
  What a call of \<open>avifImageScale\<close> leaves behind: the returned \<open>avifBool\<close>, the image
  (mutated in place by the C code) and the calls made.
\<close>

record 'i scale_result =
  ok :: bool
  img :: 'i
  calls :: "call list"

section \<open>The build without libyuv (lines 8-16)\<close>

definition avifImageScale_unimplemented ::
  "('fmt, 'z) avifImage_scheme \<Rightarrow> u32 \<Rightarrow> u32 \<Rightarrow> u32 \<Rightarrow> ('fmt, 'z) avifImage_scheme scale_result"
where
  "avifImageScale_unimplemented image0 dstWidth dstHeight imageSizeLimit =
     \<lparr>ok = False, img = image0,
      calls = [avifDiagnosticsPrintf
                 ''avifImageScale() called, but is unimplemented without libyuv!'' []]\<rparr>"

section \<open>The build with libyuv (lines 34-148)\<close>

text \<open>
  Lines 52-57: the loop that moves the YUV plane pointers and row bytes of the image into
  the local arrays and clears them in the image. The state is the image and the two local
  arrays.
\<close>

fun detachYUVPlanes ::
  "nat list \<Rightarrow> ('fmt, 'z) avifImage_scheme \<times> plane_ptr array3 \<times> u32 array3
     \<Rightarrow> ('fmt, 'z) avifImage_scheme \<times> plane_ptr array3 \<times> u32 array3"
where
  "detachYUVPlanes [] s = s"
| "detachYUVPlanes (i # rest) (image0, srcYUVPlanes, srcYUVRowBytes) =
     detachYUVPlanes rest
       (image0\<lparr>yuvPlanes := aset (yuvPlanes image0) i NULL,
               yuvRowBytes := aset (yuvRowBytes image0) i 0\<rparr>,
        aset srcYUVPlanes i (aget (yuvPlanes image0) i),
        aset srcYUVRowBytes i (aget (yuvRowBytes image0) i))"

text \<open>
  Lines 91-94: a chroma dimension from a luma dimension, \<open>(dim + shift) >> shift\<close> in
  \<open>uint32_t\<close> arithmetic: the shift is converted to \<open>uint32_t\<close> for the addition, the
  addition wraps, and the shift count is between 0 and 31.
\<close>

definition chromaDim :: "u32 \<Rightarrow> chroma_shift \<Rightarrow> u32" where
  "chromaDim dim shift = drop_bit (unat shift) (dim + ucast shift)"

text \<open>
  Lines 105-117 and 128-140: the choice of the scaling entry point by the bit depth, with
  the strides in samples.
\<close>

definition scalePlane ::
  "u32 \<Rightarrow> plane_ptr \<Rightarrow> u32 \<Rightarrow> u32 \<Rightarrow> u32 \<Rightarrow> plane_ptr \<Rightarrow> u32 \<Rightarrow> u32 \<Rightarrow> u32 \<Rightarrow> call"
where
  "scalePlane imageDepth srcPlane srcRowBytes srcW srcH dstPlane dstRowBytes dstW dstH =
     (if imageDepth > 8
      then ScalePlane_16 srcPlane (srcRowBytes div 2) srcW srcH
                         dstPlane (dstRowBytes div 2) dstW dstH AVIF_LIBYUV_FILTER_MODE
      else ScalePlane srcPlane srcRowBytes srcW srcH
                      dstPlane dstRowBytes dstW dstH AVIF_LIBYUV_FILTER_MODE)"

text \<open>
  Lines 96-122: the loop over the YUV planes. The image is only read here (it holds the
  destination planes); the loop returns the calls it makes.
\<close>

fun scaleYUVPlanes ::
  "('fmt, 'z) avifImage_scheme \<Rightarrow> plane_ptr array3 \<Rightarrow> u32 array3 \<Rightarrow> bool
     \<Rightarrow> u32 \<Rightarrow> u32 \<Rightarrow> u32 \<Rightarrow> u32 \<Rightarrow> u32 \<Rightarrow> u32 \<Rightarrow> u32 \<Rightarrow> u32 \<Rightarrow> nat list \<Rightarrow> call list"
where
  "scaleYUVPlanes image0 srcYUVPlanes srcYUVRowBytes srcImageOwnsYUVPlanes
       srcWidth srcHeight srcUVWidth srcUVHeight dstWidth dstHeight dstUVWidth dstUVHeight [] = []"
| "scaleYUVPlanes image0 srcYUVPlanes srcYUVRowBytes srcImageOwnsYUVPlanes
       srcWidth srcHeight srcUVWidth srcUVHeight dstWidth dstHeight dstUVWidth dstUVHeight (i # rest) =
     (if aget srcYUVPlanes i = NULL
      then scaleYUVPlanes image0 srcYUVPlanes srcYUVRowBytes srcImageOwnsYUVPlanes
             srcWidth srcHeight srcUVWidth srcUVHeight dstWidth dstHeight dstUVWidth dstUVHeight rest
      else
        (let srcW = (if i = AVIF_CHAN_Y then srcWidth else srcUVWidth);
             srcH = (if i = AVIF_CHAN_Y then srcHeight else srcUVHeight);
             dstW = (if i = AVIF_CHAN_Y then dstWidth else dstUVWidth);
             dstH = (if i = AVIF_CHAN_Y then dstHeight else dstUVHeight)
         in [scalePlane (depth image0) (aget srcYUVPlanes i) (aget srcYUVRowBytes i) srcW srcH
               (aget (yuvPlanes image0) i) (aget (yuvRowBytes image0) i) dstW dstH]
            @ (if srcImageOwnsYUVPlanes then [avifFree (aget srcYUVPlanes i)] else [])
            @ scaleYUVPlanes image0 srcYUVPlanes srcYUVRowBytes srcImageOwnsYUVPlanes
                srcWidth srcHeight srcUVWidth srcUVHeight dstWidth dstHeight dstUVWidth dstUVHeight rest))"

text \<open>
  Lines 86-123: the luma/chroma group. \<open>image7\<close> is the image after the detachment; the
  result is the image after the allocation and the calls made.
\<close>

definition scaleYUVGroup ::
  "(('fmt, 'z) avifImage_scheme \<Rightarrow> avifPlanesFlags \<Rightarrow> ('fmt, 'z) avifImage_scheme)
     \<Rightarrow> ('fmt \<Rightarrow> avifPixelFormatInfo)
     \<Rightarrow> ('fmt, 'z) avifImage_scheme \<Rightarrow> plane_ptr array3 \<Rightarrow> u32 array3 \<Rightarrow> bool
     \<Rightarrow> u32 \<Rightarrow> u32 \<Rightarrow> u32 \<Rightarrow> u32 \<Rightarrow> ('fmt, 'z) avifImage_scheme \<times> call list"
where
  "scaleYUVGroup allocatePlanes getPixelFormatInfo image7 srcYUVPlanes srcYUVRowBytes
       srcImageOwnsYUVPlanes srcWidth srcHeight dstWidth dstHeight =
     (if aget srcYUVPlanes 0 \<noteq> NULL
      then
        (let image8 = allocatePlanes image7 AVIF_PLANES_YUV;
             formatInfo = getPixelFormatInfo (yuvFormat image8);
             srcUVWidth = chromaDim srcWidth (chromaShiftX formatInfo);
             srcUVHeight = chromaDim srcHeight (chromaShiftY formatInfo);
             dstUVWidth = chromaDim dstWidth (chromaShiftX formatInfo);
             dstUVHeight = chromaDim dstHeight (chromaShiftY formatInfo)
         in (image8,
             avifImageAllocatePlanes AVIF_PLANES_YUV
             # scaleYUVPlanes image8 srcYUVPlanes srcYUVRowBytes srcImageOwnsYUVPlanes
                 srcWidth srcHeight srcUVWidth srcUVHeight
                 dstWidth dstHeight dstUVWidth dstUVHeight
                 [0..<AVIF_PLANE_COUNT_YUV]))
      else (image7, []))"

text \<open>
  Lines 125-145: the alpha plane. \<open>image8\<close> is the image after the luma/chroma group.
\<close>

definition scaleAlphaPlane ::
  "(('fmt, 'z) avifImage_scheme \<Rightarrow> avifPlanesFlags \<Rightarrow> ('fmt, 'z) avifImage_scheme)
     \<Rightarrow> ('fmt, 'z) avifImage_scheme \<Rightarrow> plane_ptr \<Rightarrow> u32 \<Rightarrow> bool
     \<Rightarrow> u32 \<Rightarrow> u32 \<Rightarrow> u32 \<Rightarrow> u32 \<Rightarrow> ('fmt, 'z) avifImage_scheme \<times> call list"
where
  "scaleAlphaPlane allocatePlanes image8 srcAlphaPlane srcAlphaRowBytes
       srcImageOwnsAlphaPlane srcWidth srcHeight dstWidth dstHeight =
     (if srcAlphaPlane \<noteq> NULL
      then
        (let image9 = allocatePlanes image8 AVIF_PLANES_A
         in (image9,
             [avifImageAllocatePlanes AVIF_PLANES_A,
              scalePlane (depth image9) srcAlphaPlane srcAlphaRowBytes srcWidth srcHeight
                (alphaPlane image9) (alphaRowBytes image9) dstWidth dstHeight]
             @ (if srcImageOwnsAlphaPlane then [avifFree srcAlphaPlane] else [])))
      else (image8, []))"

text \<open>
  Lines 73-84: the guard on the source dimensions. It yields the diagnostic of the failing
  check, or nothing when the function goes on.
\<close>

definition sourceGuard :: "plane_ptr array3 \<Rightarrow> plane_ptr \<Rightarrow> u32 \<Rightarrow> u32 \<Rightarrow> u32 \<Rightarrow> u32 \<Rightarrow> call option"
where
  "sourceGuard srcYUVPlanes srcAlphaPlane srcWidth srcHeight dstWidth dstHeight =
     (if aget srcYUVPlanes 0 \<noteq> NULL \<or> srcAlphaPlane \<noteq> NULL
      then
        (if srcWidth > 16384
         then Some (avifDiagnosticsPrintf
                      ''avifImageScale requested invalid width scale for libyuv [%u -> %u]''
                      [srcWidth, dstWidth])
         else if srcHeight > 16384
         then Some (avifDiagnosticsPrintf
                      ''avifImageScale requested invalid height scale for libyuv [%u -> %u]''
                      [srcHeight, dstHeight])
         else None)
      else None)"

text \<open>
  Lines 34-148. The two collaborators that are not part of the sources are parameters:
  \<open>allocatePlanes\<close> is the effect of \<open>avifImageAllocatePlanes\<close> on the image and
  \<open>getPixelFormatInfo\<close> is \<open>avifGetPixelFormatInfo\<close>. The parameter \<open>image\<close> of the C
  function is \<open>image0\<close> here, and \<open>image1\<close> to \<open>image9\<close> are the states it goes through.
  The local arrays of lines 50-51 are uninitialised in C; the loop of lines 52-57 writes
  every cell before any is read.
\<close>

definition avifImageScale_libyuv ::
  "(('fmt, 'z) avifImage_scheme \<Rightarrow> avifPlanesFlags \<Rightarrow> ('fmt, 'z) avifImage_scheme)
     \<Rightarrow> ('fmt \<Rightarrow> avifPixelFormatInfo)
     \<Rightarrow> ('fmt, 'z) avifImage_scheme \<Rightarrow> u32 \<Rightarrow> u32 \<Rightarrow> u32
     \<Rightarrow> ('fmt, 'z) avifImage_scheme scale_result"
where
  "avifImageScale_libyuv allocatePlanes getPixelFormatInfo image0 dstWidth dstHeight imageSizeLimit =
    (if width image0 = dstWidth \<and> height image0 = dstHeight
     then \<lparr>ok = True, img = image0, calls = []\<rparr>
     else if dstWidth = 0 \<or> dstHeight = 0
     then \<lparr>ok = False, img = image0,
           calls = [avifDiagnosticsPrintf
                      ''avifImageScale requested invalid dst dimensions [%ux%u]''
                      [dstWidth, dstHeight]]\<rparr>
     else if dstWidth > imageSizeLimit div dstHeight
     then \<lparr>ok = False, img = image0,
           calls = [avifDiagnosticsPrintf
                      ''avifImageScale requested dst dimensions that are too large [%ux%u]''
                      [dstWidth, dstHeight]]\<rparr>
     else
       (let (image1, srcYUVPlanes, srcYUVRowBytes) =
              detachYUVPlanes [0..<AVIF_PLANE_COUNT_YUV]
                (image0, Array3 NULL NULL NULL, Array3 0 0 0);
            srcImageOwnsYUVPlanes = imageOwnsYUVPlanes image1;
            image2 = image1\<lparr>imageOwnsYUVPlanes := False\<rparr>;
            srcAlphaPlane = alphaPlane image2;
            image3 = image2\<lparr>alphaPlane := NULL\<rparr>;
            srcAlphaRowBytes = alphaRowBytes image3;
            image4 = image3\<lparr>alphaRowBytes := 0\<rparr>;
            srcImageOwnsAlphaPlane = imageOwnsAlphaPlane image4;
            image5 = image4\<lparr>imageOwnsAlphaPlane := False\<rparr>;
            srcWidth = width image5;
            image6 = image5\<lparr>width := dstWidth\<rparr>;
            srcHeight = height image6;
            image7 = image6\<lparr>height := dstHeight\<rparr>
        in
          case sourceGuard srcYUVPlanes srcAlphaPlane srcWidth srcHeight dstWidth dstHeight of
            Some diagnostic \<Rightarrow> \<lparr>ok = False, img = image7, calls = [diagnostic]\<rparr>
          | None \<Rightarrow>
              (let (image8, yuvCalls) =
                     scaleYUVGroup allocatePlanes getPixelFormatInfo image7
                       srcYUVPlanes srcYUVRowBytes srcImageOwnsYUVPlanes
                       srcWidth srcHeight dstWidth dstHeight;
                   (image9, alphaCalls) =
                     scaleAlphaPlane allocatePlanes image8 srcAlphaPlane srcAlphaRowBytes
                       srcImageOwnsAlphaPlane srcWidth srcHeight dstWidth dstHeight
               in \<lparr>ok = True, img = image9, calls = yuvCalls @ alphaCalls\<rparr>)))"

text \<open>
  The preprocessor conditional of lines 6, 18 and 150: the build flag
  \<open>AVIF_LIBYUV_ENABLED\<close> chooses which of the two definitions of \<open>avifImageScale\<close> the
  library contains.
\<close>

definition avifImageScale ::
  "bool \<Rightarrow> (('fmt, 'z) avifImage_scheme \<Rightarrow> avifPlanesFlags \<Rightarrow> ('fmt, 'z) avifImage_scheme)
     \<Rightarrow> ('fmt \<Rightarrow> avifPixelFormatInfo)
     \<Rightarrow> ('fmt, 'z) avifImage_scheme \<Rightarrow> u32 \<Rightarrow> u32 \<Rightarrow> u32
     \<Rightarrow> ('fmt, 'z) avifImage_scheme scale_result"
where
  "avifImageScale AVIF_LIBYUV_ENABLED allocatePlanes getPixelFormatInfo
       image0 dstWidth dstHeight imageSizeLimit =
     (if AVIF_LIBYUV_ENABLED
      then avifImageScale_libyuv allocatePlanes getPixelFormatInfo
             image0 dstWidth dstHeight imageSizeLimit
      else avifImageScale_unimplemented image0 dstWidth dstHeight imageSizeLimit)"

section \<open>Observations on a result\<close>

text \<open>The source buffers handed to a scaling entry point, in call order.\<close>

fun resampled :: "call list \<Rightarrow> plane_ptr list" where
  "resampled [] = []"
| "resampled (ScalePlane src ss sw sh dst ds dw dh f # cs) = src # resampled cs"
| "resampled (ScalePlane_16 src ss sw sh dst ds dw dh f # cs) = src # resampled cs"
| "resampled (c # cs) = resampled cs"

text \<open>The buffers handed to \<open>avifFree\<close>, in call order.\<close>

fun released :: "call list \<Rightarrow> plane_ptr list" where
  "released [] = []"
| "released (avifFree p # cs) = p # released cs"
| "released (c # cs) = released cs"

text \<open>The plane groups handed to \<open>avifImageAllocatePlanes\<close>, in call order.\<close>

fun allocated :: "call list \<Rightarrow> avifPlanesFlags list" where
  "allocated [] = []"
| "allocated (avifImageAllocatePlanes g # cs) = g # allocated cs"
| "allocated (c # cs) = allocated cs"

text \<open>The format strings of the diagnostics printed, in call order.\<close>

fun diagnostics :: "call list \<Rightarrow> string list" where
  "diagnostics [] = []"
| "diagnostics (avifDiagnosticsPrintf fmt args # cs) = fmt # diagnostics cs"
| "diagnostics (c # cs) = diagnostics cs"

text \<open>Whether a call is one to a scaling entry point.\<close>

fun isScaleCall :: "call \<Rightarrow> bool" where
  "isScaleCall (ScalePlane src ss sw sh dst ds dw dh f) = True"
| "isScaleCall (ScalePlane_16 src ss sw sh dst ds dw dh f) = True"
| "isScaleCall c = False"

text \<open>
  Whether every \<open>avifFree\<close> of a call list comes directly after a scaling call that read
  the buffer it releases.
\<close>

fun releasesFollowScaling :: "call list \<Rightarrow> bool" where
  "releasesFollowScaling [] = True"
| "releasesFollowScaling (avifFree p # cs) = False"
| "releasesFollowScaling (c # avifFree p # cs) =
     (isScaleCall c \<and> resampled [c] = [p] \<and> releasesFollowScaling cs)"
| "releasesFollowScaling (c # cs) = releasesFollowScaling cs"

text \<open>The present (non-null) pointers of a plane array, in index order.\<close>

definition presentPlanes :: "plane_ptr array3 \<Rightarrow> plane_ptr list" where
  "presentPlanes a = filter (\<lambda>p. p \<noteq> NULL) [aget a 0, aget a 1, aget a 2]"

text \<open>
  The image as lines 50-71 leave it: no plane, no row bytes, no ownership, and the
  destination dimensions.
\<close>

definition detachedImage ::
  "('fmt, 'z) avifImage_scheme \<Rightarrow> u32 \<Rightarrow> u32 \<Rightarrow> ('fmt, 'z) avifImage_scheme" where
  "detachedImage image0 dstWidth dstHeight =
     image0\<lparr>yuvPlanes := Array3 NULL NULL NULL, yuvRowBytes := Array3 0 0 0,
            imageOwnsYUVPlanes := False,
            alphaPlane := NULL, alphaRowBytes := 0, imageOwnsAlphaPlane := False,
            width := dstWidth, height := dstHeight\<rparr>"

text \<open>
  The invariants of the data model that bear on the planes. The first: the luma/chroma
  planes are present together or not at all; what the function depends on is the weaker
  statement that there is no chroma buffer without the luma buffer. The second: a buffer
  has one owner, so no two planes of the image hold the same buffer.
\<close>

definition noChromaWithoutLuma :: "('fmt, 'z) avifImage_scheme \<Rightarrow> bool" where
  "noChromaWithoutLuma image0 =
     (aget (yuvPlanes image0) 0 = NULL \<longrightarrow>
        aget (yuvPlanes image0) 1 = NULL \<and> aget (yuvPlanes image0) 2 = NULL)"

definition planeBuffersDistinct :: "('fmt, 'z) avifImage_scheme \<Rightarrow> bool" where
  "planeBuffersDistinct image0 =
     distinct (presentPlanes (yuvPlanes image0)
               @ (if alphaPlane image0 \<noteq> NULL then [alphaPlane image0] else []))"

text \<open>
  The words of the specification for the chroma dimension: the luma dimension divided by
  \<open>2 ^ shift\<close>, rounded up, on unbounded integers.
\<close>

definition spec_chromaDim :: "nat \<Rightarrow> nat \<Rightarrow> nat" where
  "spec_chromaDim dim shift = (dim + 2 ^ shift - 1) div 2 ^ shift"

section \<open>Collaborators and images for concrete runs\<close>

text \<open>
  An allocator in the sense of the interface description: it gives the requested group
  fresh buffers with tightly packed rows for the current dimensions of the image, and makes
  the image their owner. The addresses 100 to 103 stand for fresh memory.
\<close>

definition exampleAllocatePlanes ::
  "unit avifImage \<Rightarrow> avifPlanesFlags \<Rightarrow> unit avifImage" where
  "exampleAllocatePlanes image0 planes =
     (let channelSize = (if depth image0 > 8 then 2 else 1);
          fullRowBytes = channelSize * width image0;
          uvRowBytes = channelSize * chromaDim (width image0) 1
      in case planes of
           AVIF_PLANES_YUV \<Rightarrow>
             image0\<lparr>yuvPlanes := Array3 (Some 100) (Some 101) (Some 102),
                    yuvRowBytes := Array3 fullRowBytes uvRowBytes uvRowBytes,
                    imageOwnsYUVPlanes := True\<rparr>
         | AVIF_PLANES_A \<Rightarrow>
             image0\<lparr>alphaPlane := Some 103, alphaRowBytes := fullRowBytes,
                    imageOwnsAlphaPlane := True\<rparr>)"

text \<open>A pixel format with both chroma shifts 1 (4:2:0 subsampling).\<close>

definition exampleFormatInfo :: "unit \<Rightarrow> avifPixelFormatInfo" where
  "exampleFormatInfo fmt = \<lparr>chromaShiftX = 1, chromaShiftY = 1\<rparr>"

text \<open>
  An image of the given dimensions and depth with the given planes, tightly packed rows
  for a 4:2:0 layout (two bytes a sample when the depth exceeds 8), and the given ownership
  flags.
\<close>

definition exampleImage ::
  "u32 \<Rightarrow> u32 \<Rightarrow> u32 \<Rightarrow> plane_ptr array3 \<Rightarrow> bool \<Rightarrow> plane_ptr \<Rightarrow> bool \<Rightarrow> unit avifImage" where
  "exampleImage w h d planes ownsYUV alpha ownsAlpha =
     (let channelSize = (if d > 8 then 2 else 1)
      in \<lparr>width = w, height = h, depth = d, yuvFormat = (),
          yuvPlanes = planes,
          yuvRowBytes = Array3 (channelSize * w) (channelSize * chromaDim w 1)
                               (channelSize * chromaDim w 1),
          imageOwnsYUVPlanes = ownsYUV,
          alphaPlane = alpha, alphaRowBytes = channelSize * w,
          imageOwnsAlphaPlane = ownsAlpha\<rparr>)"

section \<open>Auxiliary facts\<close>

lemma plane_indices: "[0..<AVIF_PLANE_COUNT_YUV] = [0, 1, 2]"
  by (simp add: AVIF_PLANE_COUNT_YUV_def upt_rec)

lemma detachYUVPlanes_all:
  "detachYUVPlanes [0..<AVIF_PLANE_COUNT_YUV] (image0, a, b) =
     (image0\<lparr>yuvPlanes := Array3 NULL NULL NULL, yuvRowBytes := Array3 0 0 0\<rparr>,
      yuvPlanes image0, yuvRowBytes image0)"
  by (cases "yuvPlanes image0"; cases "yuvRowBytes image0"; cases a; cases b)
     (simp add: plane_indices)

text \<open>
  The function past its validation (lines 50-148), with the locals of the detachment
  replaced by the fields of the image on entry.
\<close>

lemma avifImageScale_libyuv_scaling:
  assumes "\<not> (width image0 = dstWidth \<and> height image0 = dstHeight)"
    and "dstWidth \<noteq> 0" and "dstHeight \<noteq> 0"
    and "\<not> dstWidth > imageSizeLimit div dstHeight"
  shows "avifImageScale_libyuv allocatePlanes getPixelFormatInfo image0 dstWidth dstHeight imageSizeLimit =
    (case sourceGuard (yuvPlanes image0) (alphaPlane image0) (width image0) (height image0)
            dstWidth dstHeight of
       Some diagnostic \<Rightarrow>
         \<lparr>ok = False, img = detachedImage image0 dstWidth dstHeight, calls = [diagnostic]\<rparr>
     | None \<Rightarrow>
         (let y = scaleYUVGroup allocatePlanes getPixelFormatInfo
                    (detachedImage image0 dstWidth dstHeight)
                    (yuvPlanes image0) (yuvRowBytes image0) (imageOwnsYUVPlanes image0)
                    (width image0) (height image0) dstWidth dstHeight;
              a = scaleAlphaPlane allocatePlanes (fst y) (alphaPlane image0) (alphaRowBytes image0)
                    (imageOwnsAlphaPlane image0) (width image0) (height image0) dstWidth dstHeight
          in \<lparr>ok = True, img = fst a, calls = snd y @ snd a\<rparr>))"
  using assms
  by (auto simp add: avifImageScale_libyuv_def detachYUVPlanes_all detachedImage_def
      Let_def split_beta split: option.splits)


lemma avifImageScale_libyuv_noop:
  "avifImageScale_libyuv allocatePlanes getPixelFormatInfo image0 (width image0) (height image0)
     imageSizeLimit = \<lparr>ok = True, img = image0, calls = []\<rparr>"
  by (simp add: avifImageScale_libyuv_def)

text \<open>The observations on the calls of the loop and of the two plane groups.\<close>

lemma resampled_append: "resampled (xs @ ys) = resampled xs @ resampled ys"
  by (induction xs rule: resampled.induct) simp_all

lemma released_append: "released (xs @ ys) = released xs @ released ys"
  by (induction xs rule: released.induct) simp_all

lemma allocated_append: "allocated (xs @ ys) = allocated xs @ allocated ys"
  by (induction xs rule: allocated.induct) simp_all

lemma diagnostics_append: "diagnostics (xs @ ys) = diagnostics xs @ diagnostics ys"
  by (induction xs rule: diagnostics.induct) simp_all

lemma scalePlane_observed:
  "resampled (scalePlane d src srb sw sh dst drb dw dh # cs) = src # resampled cs"
  "released (scalePlane d src srb sw sh dst drb dw dh # cs) = released cs"
  "allocated (scalePlane d src srb sw sh dst drb dw dh # cs) = allocated cs"
  "diagnostics (scalePlane d src srb sw sh dst drb dw dh # cs) = diagnostics cs"
  "isScaleCall (scalePlane d src srb sw sh dst drb dw dh)"
  by (simp_all add: scalePlane_def)

lemma scaleYUVPlanes_resampled:
  "resampled (scaleYUVPlanes im P RB own sw sh suw suh dw dh duw duh idx) =
     filter (\<lambda>p. p \<noteq> NULL) (map (aget P) idx)"
  by (induction idx) (simp_all add: scalePlane_observed resampled_append)

lemma scaleYUVPlanes_released:
  "released (scaleYUVPlanes im P RB own sw sh suw suh dw dh duw duh idx) =
     (if own then filter (\<lambda>p. p \<noteq> NULL) (map (aget P) idx) else [])"
  by (induction idx) (auto simp add: scalePlane_observed released_append)

lemma scaleYUVPlanes_allocated:
  "allocated (scaleYUVPlanes im P RB own sw sh suw suh dw dh duw duh idx) = []"
  by (induction idx) (simp_all add: scalePlane_observed allocated_append)

lemma scaleYUVPlanes_diagnostics:
  "diagnostics (scaleYUVPlanes im P RB own sw sh suw suh dw dh duw duh idx) = []"
  by (induction idx) (simp_all add: scalePlane_observed diagnostics_append)


lemma releasesFollowScaling_Cons:
  "releasesFollowScaling ys \<Longrightarrow> released [c] = [] \<Longrightarrow> releasesFollowScaling (c # ys)"
  by (cases "(c # ys)" rule: releasesFollowScaling.cases) auto

lemma releasesFollowScaling_append:
  "releasesFollowScaling xs \<Longrightarrow> releasesFollowScaling ys \<Longrightarrow> releasesFollowScaling (xs @ ys)"
  by (induction xs rule: releasesFollowScaling.induct)
     (auto simp add: releasesFollowScaling_Cons)

lemma scalePlane_then_free:
  "releasesFollowScaling [scalePlane d src srb sw sh dst drb dw dh, avifFree src]"
  "releasesFollowScaling [scalePlane d src srb sw sh dst drb dw dh]"
  by (simp_all add: scalePlane_def)

lemma scaleYUVPlanes_releasesFollowScaling:
  "releasesFollowScaling (scaleYUVPlanes im P RB own sw sh suw suh dw dh duw duh idx)"
proof (induction idx)
  case Nil
  show ?case by simp
next
  case (Cons i idx)
  let ?rest = "scaleYUVPlanes im P RB own sw sh suw suh dw dh duw duh idx"
  show ?case
  proof (cases "aget P i = NULL")
    case True
    with Cons show ?thesis by simp
  next
    case False
    have "releasesFollowScaling (([scalePlane (depth im) (aget P i) (aget RB i) a b
              (aget (yuvPlanes im) i) (aget (yuvRowBytes im) i) c d]
            @ (if own then [avifFree (aget P i)] else [])) @ ?rest)" for a b c d
      by (rule releasesFollowScaling_append) (simp_all add: scalePlane_then_free Cons)
    with False show ?thesis by (auto simp add: Let_def)
  qed
qed

lemma scaleYUVGroup_observed:
  "fst (scaleYUVGroup A G im P RB own sw sh dw dh) =
     (if aget P 0 \<noteq> NULL then A im AVIF_PLANES_YUV else im)"
  "resampled (snd (scaleYUVGroup A G im P RB own sw sh dw dh)) =
     (if aget P 0 \<noteq> NULL then presentPlanes P else [])"
  "released (snd (scaleYUVGroup A G im P RB own sw sh dw dh)) =
     (if aget P 0 \<noteq> NULL \<and> own then presentPlanes P else [])"
  "allocated (snd (scaleYUVGroup A G im P RB own sw sh dw dh)) =
     (if aget P 0 \<noteq> NULL then [AVIF_PLANES_YUV] else [])"
  "diagnostics (snd (scaleYUVGroup A G im P RB own sw sh dw dh)) = []"
  "releasesFollowScaling (snd (scaleYUVGroup A G im P RB own sw sh dw dh))"
  by (simp_all add: scaleYUVGroup_def Let_def plane_indices presentPlanes_def
      scaleYUVPlanes_resampled scaleYUVPlanes_released scaleYUVPlanes_allocated
      scaleYUVPlanes_diagnostics scaleYUVPlanes_releasesFollowScaling
      releasesFollowScaling_Cons
      del: scaleYUVPlanes.simps)

lemma scaleAlphaPlane_observed:
  "fst (scaleAlphaPlane A im p rb own sw sh dw dh) =
     (if p \<noteq> NULL then A im AVIF_PLANES_A else im)"
  "resampled (snd (scaleAlphaPlane A im p rb own sw sh dw dh)) =
     (if p \<noteq> NULL then [p] else [])"
  "released (snd (scaleAlphaPlane A im p rb own sw sh dw dh)) =
     (if p \<noteq> NULL \<and> own then [p] else [])"
  "allocated (snd (scaleAlphaPlane A im p rb own sw sh dw dh)) =
     (if p \<noteq> NULL then [AVIF_PLANES_A] else [])"
  "diagnostics (snd (scaleAlphaPlane A im p rb own sw sh dw dh)) = []"
  "releasesFollowScaling (snd (scaleAlphaPlane A im p rb own sw sh dw dh))"
  by (simp_all add: scaleAlphaPlane_def Let_def scalePlane_def)


lemma sourceGuard_diagnostic:
  "sourceGuard P a sw sh dw dh = Some c \<Longrightarrow>
     diagnostics [c] \<noteq> [''avifImageScale requested dst dimensions that are too large [%ux%u]'']
     \<and> released [c] = [] \<and> resampled [c] = [] \<and> allocated [c] = []
     \<and> releasesFollowScaling [c]"
  by (auto simp add: sourceGuard_def split: if_splits)

text \<open>The equations that evaluate a call on a concrete image.\<close>

lemmas run_simps =
  avifImageScale_def avifImageScale_libyuv_scaling exampleImage_def sourceGuard_def
  scaleYUVGroup_def scaleAlphaPlane_def plane_indices Let_def exampleAllocatePlanes_def
  exampleFormatInfo_def detachedImage_def scalePlane_def AVIF_CHAN_Y_def
  AVIF_LIBYUV_FILTER_MODE_def presentPlanes_def chromaDim_def drop_bit_eq_div

section \<open>The no-op request\<close>

text \<open>
  Claim C3. A request for the dimensions the image already has returns success and leaves
  the image as it is, every field of it: the plane pointers, the row bytes, the dimensions,
  both ownership flags and whatever else the struct holds. No collaborator is called. This
  holds for every image and every limit.
\<close>

theorem noop_identity:
  "avifImageScale True allocatePlanes getPixelFormatInfo image0 (width image0) (height image0)
     imageSizeLimit = \<lparr>ok = True, img = image0, calls = []\<rparr>"
  by (simp add: avifImageScale_def avifImageScale_libyuv_noop)

theorem noop_identity_witness:
  "avifImageScale True exampleAllocatePlanes exampleFormatInfo
     (exampleImage 7 5 10 (Array3 (Some 10) (Some 11) (Some 12)) True (Some 13) False) 7 5 20
   = \<lparr>ok = True,
      img = exampleImage 7 5 10 (Array3 (Some 10) (Some 11) (Some 12)) True (Some 13) False,
      calls = []\<rparr>"
  using noop_identity [of exampleAllocatePlanes exampleFormatInfo
      "exampleImage 7 5 10 (Array3 (Some 10) (Some 11) (Some 12)) True (Some 13) False" 20]
  by (simp add: exampleImage_def)

section \<open>The build without libyuv\<close>

text \<open>
  Claim C8. In a build without libyuv every call returns failure with the diagnostic that
  the function is unimplemented, whatever the image, the destination dimensions and the
  limit are. The image comes back as it was, and neither the returned value nor the
  diagnostic depends on it.
\<close>

theorem unimplemented_without_libyuv:
  "avifImageScale False allocatePlanes getPixelFormatInfo image0 dstWidth dstHeight imageSizeLimit =
     \<lparr>ok = False, img = image0,
      calls = [avifDiagnosticsPrintf
                 ''avifImageScale() called, but is unimplemented without libyuv!'' []]\<rparr>"
  by (simp add: avifImageScale_def avifImageScale_unimplemented_def)

theorem unimplemented_without_libyuv_witness:
  "avifImageScale False exampleAllocatePlanes exampleFormatInfo
     (exampleImage 8 8 8 (Array3 (Some 10) (Some 11) (Some 12)) True (Some 13) True) 4 4 100
   = \<lparr>ok = False,
      img = exampleImage 8 8 8 (Array3 (Some 10) (Some 11) (Some 12)) True (Some 13) True,
      calls = [avifDiagnosticsPrintf
                 ''avifImageScale() called, but is unimplemented without libyuv!'' []]\<rparr>"
  by (rule unimplemented_without_libyuv)

section \<open>Order of the no-op check and the validation\<close>

text \<open>
  Claim C9. The no-op check comes before every validation: when the image already has the
  requested dimensions the call returns success and prints no diagnostic (it makes no call
  at all), whatever the limit is (a limit of 0 included) and however large the dimensions
  are (beyond 16384 included).
\<close>

theorem noop_precedes_validation:
  assumes "width image0 = dstWidth" and "height image0 = dstHeight"
  shows "ok (avifImageScale True allocatePlanes getPixelFormatInfo image0 dstWidth dstHeight
               imageSizeLimit)
       \<and> calls (avifImageScale True allocatePlanes getPixelFormatInfo image0 dstWidth dstHeight
               imageSizeLimit) = []"
  using assms by (simp add: avifImageScale_def avifImageScale_libyuv_def)

theorem noop_precedes_validation_witness:
  "unat (20000 :: u32) * unat (20000 :: u32) > unat (0 :: u32) \<and> (20000 :: u32) > 16384
   \<and> ok (avifImageScale True exampleAllocatePlanes exampleFormatInfo
        (exampleImage 20000 20000 8 (Array3 (Some 10) (Some 11) (Some 12)) True (Some 13) True)
        20000 20000 0)
   \<and> calls (avifImageScale True exampleAllocatePlanes exampleFormatInfo
        (exampleImage 20000 20000 8 (Array3 (Some 10) (Some 11) (Some 12)) True (Some 13) True)
        20000 20000 0) = []"
  using noop_precedes_validation [of
      "exampleImage 20000 20000 8 (Array3 (Some 10) (Some 11) (Some 12)) True (Some 13) True"
      20000 20000 exampleAllocatePlanes exampleFormatInfo 0]
  by (simp add: exampleImage_def)

section \<open>Validation of the destination dimensions\<close>

text \<open>
  Claim C5. When the requested dimensions differ from those of the image and the
  destination width or the destination height is 0, the call returns failure, prints the
  diagnostic of invalid destination dimensions and leaves every field of the image as it
  was.
\<close>

theorem zero_dimension_rejected:
  assumes "\<not> (width image0 = dstWidth \<and> height image0 = dstHeight)"
    and "dstWidth = 0 \<or> dstHeight = 0"
  shows "avifImageScale True allocatePlanes getPixelFormatInfo image0 dstWidth dstHeight
           imageSizeLimit =
         \<lparr>ok = False, img = image0,
          calls = [avifDiagnosticsPrintf
                     ''avifImageScale requested invalid dst dimensions [%ux%u]''
                     [dstWidth, dstHeight]]\<rparr>"
  using assms by (auto simp add: avifImageScale_def avifImageScale_libyuv_def)

theorem zero_dimension_rejected_witness:
  "avifImageScale True exampleAllocatePlanes exampleFormatInfo
     (exampleImage 8 8 8 (Array3 (Some 10) (Some 11) (Some 12)) True (Some 13) True) 0 4 100
   = \<lparr>ok = False,
      img = exampleImage 8 8 8 (Array3 (Some 10) (Some 11) (Some 12)) True (Some 13) True,
      calls = [avifDiagnosticsPrintf
                 ''avifImageScale requested invalid dst dimensions [%ux%u]'' [0, 4]]\<rparr>
   \<and> avifImageScale True exampleAllocatePlanes exampleFormatInfo
     (exampleImage 8 8 8 (Array3 (Some 10) (Some 11) (Some 12)) True (Some 13) True) 4 0 100
   = \<lparr>ok = False,
      img = exampleImage 8 8 8 (Array3 (Some 10) (Some 11) (Some 12)) True (Some 13) True,
      calls = [avifDiagnosticsPrintf
                 ''avifImageScale requested invalid dst dimensions [%ux%u]'' [4, 0]]\<rparr>"
  using zero_dimension_rejected [of
      "exampleImage 8 8 8 (Array3 (Some 10) (Some 11) (Some 12)) True (Some 13) True"
      0 4 exampleAllocatePlanes exampleFormatInfo 100]
    zero_dimension_rejected [of
      "exampleImage 8 8 8 (Array3 (Some 10) (Some 11) (Some 12)) True (Some 13) True"
      4 0 exampleAllocatePlanes exampleFormatInfo 100]
  by (simp add: exampleImage_def)


text \<open>
  Claim C4. For nonzero destination dimensions the guard of line 45,
  \<open>dstWidth > imageSizeLimit / dstHeight\<close> with the truncating division of \<open>uint32_t\<close>,
  holds exactly when the product of the two dimensions, taken on unbounded integers,
  exceeds the limit. So a request that is not a no-op fails with the diagnostic of too large
  dimensions exactly when the exact product exceeds the limit, and the image is then
  unchanged.
\<close>

theorem limit_guard_exact:
  assumes "dstWidth \<noteq> 0" and "dstHeight \<noteq> 0"
    and "\<not> (width image0 = dstWidth \<and> height image0 = dstHeight)"
  shows "(dstWidth > imageSizeLimit div dstHeight)
           = (unat dstWidth * unat dstHeight > unat imageSizeLimit)
       \<and> (diagnostics (calls (avifImageScale True allocatePlanes getPixelFormatInfo image0
                                 dstWidth dstHeight imageSizeLimit))
            = [''avifImageScale requested dst dimensions that are too large [%ux%u]''])
           = (unat dstWidth * unat dstHeight > unat imageSizeLimit)
       \<and> (unat dstWidth * unat dstHeight > unat imageSizeLimit \<longrightarrow>
            avifImageScale True allocatePlanes getPixelFormatInfo image0
              dstWidth dstHeight imageSizeLimit
            = \<lparr>ok = False, img = image0,
               calls = [avifDiagnosticsPrintf
                  ''avifImageScale requested dst dimensions that are too large [%ux%u]''
                  [dstWidth, dstHeight]]\<rparr>)"
proof -
  let ?R = "avifImageScale True allocatePlanes getPixelFormatInfo image0
              dstWidth dstHeight imageSizeLimit"
  let ?big = "unat dstWidth * unat dstHeight > unat imageSizeLimit"
  from assms(2) have h: "0 < unat dstHeight"
    by (simp add: unat_gt_0)
  have "(dstWidth > imageSizeLimit div dstHeight)
          = (unat imageSizeLimit div unat dstHeight < unat dstWidth)"
    by (simp add: word_less_nat_alt unat_div)
  also have "\<dots> = ?big"
    using h by (simp add: div_less_iff_less_mult)
  finally have guard: "(dstWidth > imageSizeLimit div dstHeight) = ?big" .
  have fails: "?R = \<lparr>ok = False, img = image0,
                  calls = [avifDiagnosticsPrintf
                     ''avifImageScale requested dst dimensions that are too large [%ux%u]''
                     [dstWidth, dstHeight]]\<rparr>" if "?big"
    using that assms guard by (auto simp add: avifImageScale_def avifImageScale_libyuv_def)
  have passes: "diagnostics (calls ?R)
          \<noteq> [''avifImageScale requested dst dimensions that are too large [%ux%u]'']"
    if "\<not> ?big"
  proof -
    from that guard have "\<not> dstWidth > imageSizeLimit div dstHeight" by simp
    note eq = avifImageScale_libyuv_scaling [OF assms(3) assms(1) assms(2) this]
    show ?thesis
    proof (cases "sourceGuard (yuvPlanes image0) (alphaPlane image0) (width image0)
                    (height image0) dstWidth dstHeight")
      case None
      then show ?thesis
        by (simp add: avifImageScale_def eq Let_def diagnostics_append
            scaleYUVGroup_observed scaleAlphaPlane_observed)
    next
      case (Some c)
      with sourceGuard_diagnostic [OF Some] show ?thesis
        by (simp add: avifImageScale_def eq)
    qed
  qed
  from guard fails passes show ?thesis
    by (cases ?big) simp_all
qed

theorem limit_guard_exact_witness:
  "diagnostics (calls (avifImageScale True exampleAllocatePlanes exampleFormatInfo
      (exampleImage 8 8 8 (Array3 (Some 10) (Some 11) (Some 12)) True (Some 13) True)
      100 100 9999))
     = [''avifImageScale requested dst dimensions that are too large [%ux%u]'']
   \<and> diagnostics (calls (avifImageScale True exampleAllocatePlanes exampleFormatInfo
      (exampleImage 8 8 8 (Array3 (Some 10) (Some 11) (Some 12)) True (Some 13) True)
      100 100 10000))
     \<noteq> [''avifImageScale requested dst dimensions that are too large [%ux%u]'']"
  using limit_guard_exact [of 100 100
      "exampleImage 8 8 8 (Array3 (Some 10) (Some 11) (Some 12)) True (Some 13) True"
      9999 exampleAllocatePlanes exampleFormatInfo]
    limit_guard_exact [of 100 100
      "exampleImage 8 8 8 (Array3 (Some 10) (Some 11) (Some 12)) True (Some 13) True"
      10000 exampleAllocatePlanes exampleFormatInfo]
  by (simp add: exampleImage_def)


section \<open>Chroma dimensions\<close>

lemma unat_chromaDim:
  "unat (chromaDim dim shift) = ((unat dim + unat shift) mod 2 ^ 32) div 2 ^ unat shift"
proof -
  have "unat (chromaDim dim shift) = unat (dim + ucast shift) div 2 ^ unat shift"
    unfolding chromaDim_def unat_drop_bit_eq by (rule drop_bit_eq_div)
  also have "unat (ucast shift :: u32) = unat shift"
    using unsigned_less [of shift, where 'a = nat]
    by (simp add: unsigned_ucast_eq take_bit_nat_eq_self)
  then have "unat (dim + ucast shift) = (unat dim + unat shift) mod 2 ^ 32"
    by (simp add: unat_word_ariths)
  finally show ?thesis .
qed

text \<open>
  Claim C6, as amended. For every luma dimension \<open>dim\<close> and every chroma shift \<open>shift\<close>
  from 0 to 31 (the counts for which the C shift is defined), the chroma dimension that
  the rescaler computes is \<open>(dim + shift) >> shift\<close> in 32-bit unsigned arithmetic. When
  the shift is 0 or 1 and \<open>dim + shift\<close> does not wrap around, this is \<open>dim\<close> divided by
  \<open>2 ^ shift\<close>, rounded up.
\<close>

theorem chromaDim_rounds_up:
  "unat shift < 32
   \<and> unat (chromaDim dim shift) = ((unat dim + unat shift) mod 2 ^ 32) div 2 ^ unat shift
   \<and> (unat shift \<le> 1 \<and> unat dim + unat shift < 2 ^ 32 \<longrightarrow>
        unat (chromaDim dim shift) = spec_chromaDim (unat dim) (unat shift))"
proof -
  have bound: "unat shift < 32"
    using unsigned_less [of shift, where 'a = nat] by simp
  have "unat (chromaDim dim shift) = spec_chromaDim (unat dim) (unat shift)"
    if "unat shift \<le> 1" and "unat dim + unat shift < 2 ^ 32"
  proof -
    from that(1) consider "unat shift = 0" | "unat shift = 1" by linarith
    then show ?thesis
    proof cases
      case 1
      then show ?thesis
        using that(2) by (simp add: unat_chromaDim spec_chromaDim_def)
    next
      case 2
      with that(2) show ?thesis by (simp add: unat_chromaDim spec_chromaDim_def)
    qed
  qed
  with bound show ?thesis by (simp add: unat_chromaDim)
qed

text \<open>
  A 7x5 luma plane with shift 1 on both axes has 4x3 chroma planes, and the rescaler hands
  these dimensions to the scaling entry point for the two chroma planes.
\<close>

theorem chromaDim_rounds_up_witness:
  "unat (chromaDim 7 1) = spec_chromaDim 7 1 \<and> chromaDim 7 1 = 4
   \<and> unat (chromaDim 5 1) = spec_chromaDim 5 1 \<and> chromaDim 5 1 = 3
   \<and> calls (avifImageScale True exampleAllocatePlanes exampleFormatInfo
        (exampleImage 7 5 8 (Array3 (Some 10) (Some 11) (Some 12)) False NULL False) 14 10 140)
     = [avifImageAllocatePlanes AVIF_PLANES_YUV,
        ScalePlane (Some 10) 7 7 5 (Some 100) 14 14 10 kFilterBox,
        ScalePlane (Some 11) 4 4 3 (Some 101) 7 7 5 kFilterBox,
        ScalePlane (Some 12) 4 4 3 (Some 102) 7 7 5 kFilterBox]"
proof -
  have a: "unat (chromaDim 7 1) = spec_chromaDim 7 1"
    using chromaDim_rounds_up [of 1 7] by simp
  have b: "unat (chromaDim 5 1) = spec_chromaDim 5 1"
    using chromaDim_rounds_up [of 1 5] by simp
  have c: "chromaDim 7 1 = 4" "chromaDim 5 1 = 3" "chromaDim 14 1 = 7" "chromaDim 10 1 = 5"
    by (simp_all add: chromaDim_def drop_bit_eq_div)
  have "calls (avifImageScale True exampleAllocatePlanes exampleFormatInfo
        (exampleImage 7 5 8 (Array3 (Some 10) (Some 11) (Some 12)) False NULL False) 14 10 140)
     = [avifImageAllocatePlanes AVIF_PLANES_YUV,
        ScalePlane (Some 10) 7 7 5 (Some 100) 14 14 10 kFilterBox,
        ScalePlane (Some 11) 4 4 3 (Some 101) 7 7 5 kFilterBox,
        ScalePlane (Some 12) 4 4 3 (Some 102) 7 7 5 kFilterBox]"
    by (simp add: avifImageScale_def avifImageScale_libyuv_scaling exampleImage_def
        sourceGuard_def scaleYUVGroup_def scaleAlphaPlane_def plane_indices Let_def
        exampleAllocatePlanes_def exampleFormatInfo_def detachedImage_def scalePlane_def
        AVIF_CHAN_Y_def AVIF_LIBYUV_FILTER_MODE_def c)
  with a b c show ?thesis by simp
qed

text \<open>
  Claim C6 as stated fails for a shift of 2 (a luma dimension of 1 gives 0, not 1) and for
  a luma dimension of \<open>2 ^ 32 - 1\<close> with shift 1 (the addition wraps to 0).
\<close>

theorem chromaDim_rounds_up_counterexample:
  "unat (chromaDim 1 2) = 0 \<and> spec_chromaDim (unat (1 :: u32)) (unat (2 :: chroma_shift)) = 1
   \<and> unat (chromaDim 4294967295 1) = 0
   \<and> spec_chromaDim (unat (4294967295 :: u32)) (unat (1 :: chroma_shift)) = 2147483648"
  by (simp add: unat_chromaDim spec_chromaDim_def)


section \<open>The guard on the source dimensions\<close>

text \<open>
  The guard of lines 73-84 fires when the luma buffer or the alpha buffer is present and a
  source dimension exceeds 16384.
\<close>

lemma sourceGuard_fires:
  assumes "\<not> (width image0 = dstWidth \<and> height image0 = dstHeight)"
    and "dstWidth \<noteq> 0" and "dstHeight \<noteq> 0"
    and "\<not> dstWidth > imageSizeLimit div dstHeight"
    and "aget (yuvPlanes image0) 0 \<noteq> NULL \<or> alphaPlane image0 \<noteq> NULL"
    and "width image0 > 16384 \<or> height image0 > 16384"
  shows "avifImageScale True allocatePlanes getPixelFormatInfo image0 dstWidth dstHeight
           imageSizeLimit =
         \<lparr>ok = False,
          img = image0\<lparr>yuvPlanes := Array3 NULL NULL NULL, yuvRowBytes := Array3 0 0 0,
                       imageOwnsYUVPlanes := False,
                       alphaPlane := NULL, alphaRowBytes := 0, imageOwnsAlphaPlane := False,
                       width := dstWidth, height := dstHeight\<rparr>,
          calls = [if width image0 > 16384
                   then avifDiagnosticsPrintf
                          ''avifImageScale requested invalid width scale for libyuv [%u -> %u]''
                          [width image0, dstWidth]
                   else avifDiagnosticsPrintf
                          ''avifImageScale requested invalid height scale for libyuv [%u -> %u]''
                          [height image0, dstHeight]]\<rparr>"
proof -
  note eq = avifImageScale_libyuv_scaling [OF assms(1) assms(2) assms(3) assms(4)]
  from assms(5) assms(6) show ?thesis
    by (auto simp add: avifImageScale_def eq sourceGuard_def detachedImage_def)
qed

text \<open>
  Claim C2. For every image of the data model (no chroma buffer without the luma buffer)
  with at least one present plane, YUV or alpha, whose width or height exceeds 16384, and
  for destination dimensions that pass the checks of lines 36-48: the call returns failure
  with the diagnostic of the guard and calls no other collaborator, and the image it
  leaves has the destination width and height, no plane pointer, row bytes 0 everywhere
  and both ownership flags cleared.
\<close>

theorem source_guard_failure_state:
  assumes "noChromaWithoutLuma image0"
    and "presentPlanes (yuvPlanes image0) \<noteq> [] \<or> alphaPlane image0 \<noteq> NULL"
    and "width image0 > 16384 \<or> height image0 > 16384"
    and "\<not> (width image0 = dstWidth \<and> height image0 = dstHeight)"
    and "dstWidth \<noteq> 0" and "dstHeight \<noteq> 0"
    and "\<not> dstWidth > imageSizeLimit div dstHeight"
  shows "avifImageScale True allocatePlanes getPixelFormatInfo image0 dstWidth dstHeight
           imageSizeLimit =
         \<lparr>ok = False,
          img = image0\<lparr>yuvPlanes := Array3 NULL NULL NULL, yuvRowBytes := Array3 0 0 0,
                       imageOwnsYUVPlanes := False,
                       alphaPlane := NULL, alphaRowBytes := 0, imageOwnsAlphaPlane := False,
                       width := dstWidth, height := dstHeight\<rparr>,
          calls = [if width image0 > 16384
                   then avifDiagnosticsPrintf
                          ''avifImageScale requested invalid width scale for libyuv [%u -> %u]''
                          [width image0, dstWidth]
                   else avifDiagnosticsPrintf
                          ''avifImageScale requested invalid height scale for libyuv [%u -> %u]''
                          [height image0, dstHeight]]\<rparr>"
proof -
  from assms(1) assms(2)
  have "aget (yuvPlanes image0) 0 \<noteq> NULL \<or> alphaPlane image0 \<noteq> NULL"
    by (auto simp add: noChromaWithoutLuma_def presentPlanes_def split: if_splits)
  from sourceGuard_fires [OF assms(4) assms(5) assms(6) assms(7) this assms(3)]
  show ?thesis .
qed

theorem source_guard_failure_state_witness:
  "avifImageScale True exampleAllocatePlanes exampleFormatInfo
     (exampleImage 16385 8 8 (Array3 (Some 10) (Some 11) (Some 12)) True NULL False) 4 4 16 =
   \<lparr>ok = False,
    img = exampleImage 4 4 8 (Array3 NULL NULL NULL) False NULL False
            \<lparr>yuvRowBytes := Array3 0 0 0, alphaRowBytes := 0\<rparr>,
    calls = [avifDiagnosticsPrintf
               ''avifImageScale requested invalid width scale for libyuv [%u -> %u]''
               [16385, 4]]\<rparr>
   \<and> avifImageScale True exampleAllocatePlanes exampleFormatInfo
     (exampleImage 8 16385 8 (Array3 NULL NULL NULL) False (Some 13) True) 4 4 16 =
   \<lparr>ok = False,
    img = exampleImage 4 4 8 (Array3 NULL NULL NULL) False NULL False
            \<lparr>yuvRowBytes := Array3 0 0 0, alphaRowBytes := 0\<rparr>,
    calls = [avifDiagnosticsPrintf
               ''avifImageScale requested invalid height scale for libyuv [%u -> %u]''
               [16385, 4]]\<rparr>"
proof -
  have yuv: "noChromaWithoutLuma
      (exampleImage 16385 8 8 (Array3 (Some 10) (Some 11) (Some 12)) True NULL False)"
    and alpha: "noChromaWithoutLuma
      (exampleImage 8 16385 8 (Array3 NULL NULL NULL) False (Some 13) True)"
    by (simp_all add: noChromaWithoutLuma_def exampleImage_def)
  show ?thesis
    using source_guard_failure_state [OF yuv, of 4 4 16 exampleAllocatePlanes exampleFormatInfo]
      source_guard_failure_state [OF alpha, of 4 4 16 exampleAllocatePlanes exampleFormatInfo]
    by (simp add: exampleImage_def presentPlanes_def)
qed

section \<open>Which planes are resampled and released\<close>

text \<open>
  A call either returns at once with success (the no-op), or fails with one diagnostic and
  no other call, or goes through the two plane groups and succeeds.
\<close>

lemma avifImageScale_outcomes:
  fixes image0 :: "('fmt, 'z) avifImage_scheme"
    and allocatePlanes getPixelFormatInfo dstWidth dstHeight imageSizeLimit
  defines "R \<equiv> avifImageScale True allocatePlanes getPixelFormatInfo image0
                   dstWidth dstHeight imageSizeLimit"
  obtains
    (noop) "width image0 = dstWidth \<and> height image0 = dstHeight"
      and "R = \<lparr>ok = True, img = image0, calls = []\<rparr>"
  | (failed) "\<not> (width image0 = dstWidth \<and> height image0 = dstHeight)"
      and "\<not> ok R" and "\<exists>fmt args. calls R = [avifDiagnosticsPrintf fmt args]"
  | (scaled) "\<not> (width image0 = dstWidth \<and> height image0 = dstHeight)"
      and "ok R"
      and "calls R =
             snd (scaleYUVGroup allocatePlanes getPixelFormatInfo
                    (detachedImage image0 dstWidth dstHeight)
                    (yuvPlanes image0) (yuvRowBytes image0) (imageOwnsYUVPlanes image0)
                    (width image0) (height image0) dstWidth dstHeight)
             @ snd (scaleAlphaPlane allocatePlanes
                    (fst (scaleYUVGroup allocatePlanes getPixelFormatInfo
                      (detachedImage image0 dstWidth dstHeight)
                      (yuvPlanes image0) (yuvRowBytes image0) (imageOwnsYUVPlanes image0)
                      (width image0) (height image0) dstWidth dstHeight))
                    (alphaPlane image0) (alphaRowBytes image0)
                    (imageOwnsAlphaPlane image0) (width image0) (height image0)
                    dstWidth dstHeight)"
proof (cases "width image0 = dstWidth \<and> height image0 = dstHeight")
  case True
  then have "R = \<lparr>ok = True, img = image0, calls = []\<rparr>"
    by (simp add: R_def avifImageScale_def avifImageScale_libyuv_def)
  with True show thesis by (rule noop)
next
  case differ: False
  show thesis
  proof (cases "dstWidth = 0 \<or> dstHeight = 0 \<or> dstWidth > imageSizeLimit div dstHeight")
    case True
    with differ have "\<not> ok R \<and> (\<exists>fmt args. calls R = [avifDiagnosticsPrintf fmt args])"
      by (auto simp add: R_def avifImageScale_def avifImageScale_libyuv_def)
    with differ show thesis by (auto intro: failed)
  next
    case False
    then have v: "dstWidth \<noteq> 0" "dstHeight \<noteq> 0" "\<not> dstWidth > imageSizeLimit div dstHeight"
      by simp_all
    note eq = avifImageScale_libyuv_scaling [OF differ v]
    show thesis
    proof (cases "sourceGuard (yuvPlanes image0) (alphaPlane image0) (width image0)
                    (height image0) dstWidth dstHeight")
      case None
      then show thesis
        using differ by (intro scaled) (simp_all add: R_def avifImageScale_def eq Let_def)
    next
      case (Some c)
      then have "\<exists>fmt args. c = avifDiagnosticsPrintf fmt args"
        by (auto simp add: sourceGuard_def split: if_splits)
      with Some show thesis
        using differ by (intro failed) (auto simp add: R_def avifImageScale_def eq)
    qed
  qed
qed

lemma calls_observed:
  fixes image0 :: "('fmt, 'z) avifImage_scheme"
    and allocatePlanes getPixelFormatInfo dstWidth dstHeight imageSizeLimit
  defines "R \<equiv> avifImageScale True allocatePlanes getPixelFormatInfo image0
                   dstWidth dstHeight imageSizeLimit"
  defines "scaled \<equiv> ok R \<and> \<not> (width image0 = dstWidth \<and> height image0 = dstHeight)"
  shows "resampled (calls R) =
           (if scaled
            then (if aget (yuvPlanes image0) 0 \<noteq> NULL then presentPlanes (yuvPlanes image0) else [])
                 @ (if alphaPlane image0 \<noteq> NULL then [alphaPlane image0] else [])
            else [])"
    and "released (calls R) =
           (if scaled
            then (if aget (yuvPlanes image0) 0 \<noteq> NULL \<and> imageOwnsYUVPlanes image0
                  then presentPlanes (yuvPlanes image0) else [])
                 @ (if alphaPlane image0 \<noteq> NULL \<and> imageOwnsAlphaPlane image0
                    then [alphaPlane image0] else [])
            else [])"
    and "allocated (calls R) =
           (if scaled
            then (if aget (yuvPlanes image0) 0 \<noteq> NULL then [AVIF_PLANES_YUV] else [])
                 @ (if alphaPlane image0 \<noteq> NULL then [AVIF_PLANES_A] else [])
            else [])"
    and "releasesFollowScaling (calls R)"
    and "scaled \<longrightarrow> diagnostics (calls R) = []"
proof -
  have "(resampled (calls R) =
           (if scaled
            then (if aget (yuvPlanes image0) 0 \<noteq> NULL then presentPlanes (yuvPlanes image0) else [])
                 @ (if alphaPlane image0 \<noteq> NULL then [alphaPlane image0] else [])
            else []))
      \<and> (released (calls R) =
           (if scaled
            then (if aget (yuvPlanes image0) 0 \<noteq> NULL \<and> imageOwnsYUVPlanes image0
                  then presentPlanes (yuvPlanes image0) else [])
                 @ (if alphaPlane image0 \<noteq> NULL \<and> imageOwnsAlphaPlane image0
                    then [alphaPlane image0] else [])
            else []))
      \<and> (allocated (calls R) =
           (if scaled
            then (if aget (yuvPlanes image0) 0 \<noteq> NULL then [AVIF_PLANES_YUV] else [])
                 @ (if alphaPlane image0 \<noteq> NULL then [AVIF_PLANES_A] else [])
            else []))
      \<and> releasesFollowScaling (calls R)
      \<and> (scaled \<longrightarrow> diagnostics (calls R) = [])"
  proof (cases rule: avifImageScale_outcomes
      [of image0 dstWidth dstHeight allocatePlanes getPixelFormatInfo imageSizeLimit])
    case noop
    then show ?thesis by (simp add: R_def scaled_def)
  next
    case failed
    then show ?thesis by (auto simp add: R_def scaled_def)
  next
    case scaled
    then show ?thesis
      unfolding R_def scaled_def
      by (simp add: resampled_append released_append allocated_append diagnostics_append
          releasesFollowScaling_append scaleYUVGroup_observed scaleAlphaPlane_observed)
  qed
  then show "resampled (calls R) =
           (if scaled
            then (if aget (yuvPlanes image0) 0 \<noteq> NULL then presentPlanes (yuvPlanes image0) else [])
                 @ (if alphaPlane image0 \<noteq> NULL then [alphaPlane image0] else [])
            else [])"
    and "released (calls R) =
           (if scaled
            then (if aget (yuvPlanes image0) 0 \<noteq> NULL \<and> imageOwnsYUVPlanes image0
                  then presentPlanes (yuvPlanes image0) else [])
                 @ (if alphaPlane image0 \<noteq> NULL \<and> imageOwnsAlphaPlane image0
                    then [alphaPlane image0] else [])
            else [])"
    and "allocated (calls R) =
           (if scaled
            then (if aget (yuvPlanes image0) 0 \<noteq> NULL then [AVIF_PLANES_YUV] else [])
                 @ (if alphaPlane image0 \<noteq> NULL then [AVIF_PLANES_A] else [])
            else [])"
    and "releasesFollowScaling (calls R)"
    and "scaled \<longrightarrow> diagnostics (calls R) = []"
    by simp_all
qed



text \<open>
  Claim C10. Whether the luma/chroma group is processed is decided by plane 0 alone. For
  an image whose luma buffer is absent, the call never allocates the YUV group, the only
  buffer it can resample or release is the alpha buffer, and it makes the same calls as on
  the image without any chroma pointer. The guard on the source dimensions is applied exactly when the luma buffer or the
  alpha buffer is present: with both absent a valid request succeeds without any call,
  whatever the source dimensions are, and with one of them present a source dimension
  above 16384 makes the call fail. Inside the loop an absent plane is skipped: a null
  pointer is never resampled or released, and when the luma buffer is present the buffers
  resampled are exactly the present planes, followed by the alpha buffer if present.
\<close>

theorem luma_decides_yuv_group:
  fixes image0 :: "('fmt, 'z) avifImage_scheme"
    and allocatePlanes getPixelFormatInfo dstWidth dstHeight imageSizeLimit
  defines "R \<equiv> avifImageScale True allocatePlanes getPixelFormatInfo image0
                   dstWidth dstHeight imageSizeLimit"
  defines "valid \<equiv> \<not> (width image0 = dstWidth \<and> height image0 = dstHeight)
                   \<and> dstWidth \<noteq> 0 \<and> dstHeight \<noteq> 0
                   \<and> \<not> dstWidth > imageSizeLimit div dstHeight"
  shows "(aget (yuvPlanes image0) 0 = NULL \<longrightarrow>
            AVIF_PLANES_YUV \<notin> set (allocated (calls R))
          \<and> set (resampled (calls R)) \<subseteq> {alphaPlane image0}
          \<and> set (released (calls R)) \<subseteq> {alphaPlane image0}
          \<and> calls (avifImageScale True allocatePlanes getPixelFormatInfo
                     (image0\<lparr>yuvPlanes := Array3 NULL NULL NULL\<rparr>)
                     dstWidth dstHeight imageSizeLimit) = calls R)
       \<and> (aget (yuvPlanes image0) 0 = NULL \<and> alphaPlane image0 = NULL \<and> valid \<longrightarrow>
            R = \<lparr>ok = True, img = detachedImage image0 dstWidth dstHeight, calls = []\<rparr>)
       \<and> ((aget (yuvPlanes image0) 0 \<noteq> NULL \<or> alphaPlane image0 \<noteq> NULL) \<and> valid
            \<and> (width image0 > 16384 \<or> height image0 > 16384) \<longrightarrow>
            \<not> ok R \<and> allocated (calls R) = [])
       \<and> NULL \<notin> set (resampled (calls R)) \<and> NULL \<notin> set (released (calls R))
       \<and> (aget (yuvPlanes image0) 0 \<noteq> NULL \<and> valid \<and> ok R \<longrightarrow>
            resampled (calls R) =
              presentPlanes (yuvPlanes image0)
              @ (if alphaPlane image0 \<noteq> NULL then [alphaPlane image0] else []))"
proof -
  note obs = calls_observed [of allocatePlanes getPixelFormatInfo image0
      dstWidth dstHeight imageSizeLimit, folded R_def]
  have same: "calls (avifImageScale True allocatePlanes getPixelFormatInfo
                       (image0\<lparr>yuvPlanes := Array3 NULL NULL NULL\<rparr>)
                       dstWidth dstHeight imageSizeLimit) = calls R"
    if luma: "aget (yuvPlanes image0) 0 = NULL"
  proof (cases valid)
    case True
    then have v: "\<not> (width image0 = dstWidth \<and> height image0 = dstHeight)"
      "dstWidth \<noteq> 0" "dstHeight \<noteq> 0" "\<not> dstWidth > imageSizeLimit div dstHeight"
      by (simp_all add: valid_def)
    have v': "\<not> (width (image0\<lparr>yuvPlanes := Array3 NULL NULL NULL\<rparr>) = dstWidth
                 \<and> height (image0\<lparr>yuvPlanes := Array3 NULL NULL NULL\<rparr>) = dstHeight)"
      using v(1) by simp
    show ?thesis
      unfolding R_def avifImageScale_def
      using luma
      by (simp add: avifImageScale_libyuv_scaling [OF v] 
          avifImageScale_libyuv_scaling [OF v' v(2) v(3) v(4)]
          sourceGuard_def scaleYUVGroup_def detachedImage_def Let_def split: option.splits)
  next
    case False
    then show ?thesis
      unfolding R_def valid_def
      by (auto simp add: avifImageScale_def avifImageScale_libyuv_def)
  qed
  have absent: "AVIF_PLANES_YUV \<notin> set (allocated (calls R))
          \<and> set (resampled (calls R)) \<subseteq> {alphaPlane image0}
          \<and> set (released (calls R)) \<subseteq> {alphaPlane image0}
          \<and> calls (avifImageScale True allocatePlanes getPixelFormatInfo
                     (image0\<lparr>yuvPlanes := Array3 NULL NULL NULL\<rparr>)
                     dstWidth dstHeight imageSizeLimit) = calls R"
    if "aget (yuvPlanes image0) 0 = NULL"
    using that same [OF that] by (auto simp add: obs)
  have unguarded: "R = \<lparr>ok = True, img = detachedImage image0 dstWidth dstHeight, calls = []\<rparr>"
    if "aget (yuvPlanes image0) 0 = NULL" and "alphaPlane image0 = NULL" and valid
    using that unfolding valid_def R_def
    by (simp add: avifImageScale_def avifImageScale_libyuv_scaling sourceGuard_def
        scaleYUVGroup_def scaleAlphaPlane_def)
  have guarded: "\<not> ok R \<and> allocated (calls R) = []"
    if "aget (yuvPlanes image0) 0 \<noteq> NULL \<or> alphaPlane image0 \<noteq> NULL" and valid
      and "width image0 > 16384 \<or> height image0 > 16384"
  proof -
    from that have "\<not> ok R"
      unfolding valid_def R_def
      by (auto simp add: avifImageScale_def avifImageScale_libyuv_scaling sourceGuard_def)
    then show ?thesis by (simp add: obs)
  qed
  have skipped: "NULL \<notin> set (resampled (calls R))" "NULL \<notin> set (released (calls R))"
    by (auto simp add: obs presentPlanes_def)
  have present: "resampled (calls R) =
              presentPlanes (yuvPlanes image0)
              @ (if alphaPlane image0 \<noteq> NULL then [alphaPlane image0] else [])"
    if "aget (yuvPlanes image0) 0 \<noteq> NULL" and valid and "ok R"
    using that unfolding valid_def by (simp add: obs)
  from absent unguarded guarded skipped present show ?thesis by blast
qed



theorem luma_decides_yuv_group_witness:
  "AVIF_PLANES_YUV \<notin> set (allocated (calls
      (avifImageScale True exampleAllocatePlanes exampleFormatInfo
        (exampleImage 8 8 8 (Array3 NULL (Some 11) (Some 12)) True (Some 13) True) 4 4 16)))
   \<and> set (resampled (calls
      (avifImageScale True exampleAllocatePlanes exampleFormatInfo
        (exampleImage 8 8 8 (Array3 NULL (Some 11) (Some 12)) True (Some 13) True) 4 4 16)))
     \<subseteq> {Some 13}
   \<and> set (released (calls
      (avifImageScale True exampleAllocatePlanes exampleFormatInfo
        (exampleImage 8 8 8 (Array3 NULL (Some 11) (Some 12)) True (Some 13) True) 4 4 16)))
     \<subseteq> {Some 13}
   \<and> avifImageScale True exampleAllocatePlanes exampleFormatInfo
        (exampleImage 20000 8 8 (Array3 NULL (Some 11) (Some 12)) True NULL False) 4 4 16
     = \<lparr>ok = True,
        img = detachedImage
                (exampleImage 20000 8 8 (Array3 NULL (Some 11) (Some 12)) True NULL False) 4 4,
        calls = []\<rparr>
   \<and> \<not> ok (avifImageScale True exampleAllocatePlanes exampleFormatInfo
        (exampleImage 20000 8 8 (Array3 (Some 10) (Some 11) (Some 12)) True NULL False) 4 4 16)
   \<and> resampled (calls
      (avifImageScale True exampleAllocatePlanes exampleFormatInfo
        (exampleImage 8 8 8 (Array3 (Some 10) NULL (Some 12)) True (Some 13) True) 4 4 16))
     = [Some 10, Some 12, Some 13]"
proof -
  have scaled: "ok (avifImageScale True exampleAllocatePlanes exampleFormatInfo
        (exampleImage 8 8 8 (Array3 (Some 10) NULL (Some 12)) True (Some 13) True) 4 4 16)"
    by (simp add: run_simps)
  show ?thesis
    using luma_decides_yuv_group [where ?image0.0 = "exampleImage 8 8 8 (Array3 NULL (Some 11) (Some 12)) True (Some 13) True"
        and allocatePlanes = exampleAllocatePlanes and getPixelFormatInfo = exampleFormatInfo
        and dstWidth = 4 and dstHeight = 4 and imageSizeLimit = 16]
      luma_decides_yuv_group [where ?image0.0 = "exampleImage 20000 8 8 (Array3 NULL (Some 11) (Some 12)) True NULL False"
        and allocatePlanes = exampleAllocatePlanes and getPixelFormatInfo = exampleFormatInfo
        and dstWidth = 4 and dstHeight = 4 and imageSizeLimit = 16]
      luma_decides_yuv_group [where ?image0.0 = "exampleImage 20000 8 8 (Array3 (Some 10) (Some 11) (Some 12)) True NULL False"
        and allocatePlanes = exampleAllocatePlanes and getPixelFormatInfo = exampleFormatInfo
        and dstWidth = 4 and dstHeight = 4 and imageSizeLimit = 16]
      luma_decides_yuv_group [where ?image0.0 = "exampleImage 8 8 8 (Array3 (Some 10) NULL (Some 12)) True (Some 13) True"
        and allocatePlanes = exampleAllocatePlanes and getPixelFormatInfo = exampleFormatInfo
        and dstWidth = 4 and dstHeight = 4 and imageSizeLimit = 16]
      scaled
    by (simp add: exampleImage_def presentPlanes_def)
qed

lemma presentPlanes_not_NULL: "NULL \<notin> set (presentPlanes a)"
  by (auto simp add: presentPlanes_def)

lemma count_list_distinct:
  "distinct xs \<Longrightarrow> x \<in> set xs \<Longrightarrow> count_list xs x = 1"
  by (induction xs) auto

text \<open>
  Claim C1. Take an image of the data model, with no chroma buffer without the luma
  buffer, and a call that is not a no-op and returns success. If the image owned its YUV
  planes on entry, the buffers handed to \<open>avifFree\<close> are exactly its present YUV buffers,
  one release for each present plane, in plane order; if it did not, none of them is
  handed to \<open>avifFree\<close>. The alpha buffer follows, released once if it is present and
  the image owned it, and not at all otherwise. For every call, successful or not: every
  release comes directly after the scaling call that read the released buffer; an image
  that did not own its YUV planes has no buffer released but possibly its alpha buffer; an
  image that did not own its alpha plane has no buffer released but possibly present YUV
  buffers; and a call that fails releases nothing. When, as the data model has it, no two
  planes hold the same buffer: each present YUV buffer of an image that owned its YUV
  planes is released exactly once by a successful call, no present YUV buffer of an image
  that did not own them is released by any call, and the same holds for the alpha buffer
  with its own flag.
\<close>

theorem release_follows_ownership:
  fixes image0 :: "('fmt, 'z) avifImage_scheme"
    and allocatePlanes getPixelFormatInfo dstWidth dstHeight imageSizeLimit
  defines "R \<equiv> avifImageScale True allocatePlanes getPixelFormatInfo image0
                   dstWidth dstHeight imageSizeLimit"
  assumes inv: "noChromaWithoutLuma image0"
  shows "(ok R \<and> \<not> (width image0 = dstWidth \<and> height image0 = dstHeight) \<longrightarrow>
            released (calls R) =
              (if imageOwnsYUVPlanes image0 then presentPlanes (yuvPlanes image0) else [])
              @ (if imageOwnsAlphaPlane image0 \<and> alphaPlane image0 \<noteq> NULL
                 then [alphaPlane image0] else [])
          \<and> resampled (calls R) =
              presentPlanes (yuvPlanes image0)
              @ (if alphaPlane image0 \<noteq> NULL then [alphaPlane image0] else []))
       \<and> releasesFollowScaling (calls R)
       \<and> (\<not> imageOwnsYUVPlanes image0 \<longrightarrow> set (released (calls R)) \<subseteq> {alphaPlane image0})
       \<and> (\<not> imageOwnsAlphaPlane image0 \<longrightarrow>
            set (released (calls R)) \<subseteq> set (presentPlanes (yuvPlanes image0)))
       \<and> (\<not> ok R \<longrightarrow> released (calls R) = [])
       \<and> (planeBuffersDistinct image0 \<longrightarrow>
            (ok R \<and> \<not> (width image0 = dstWidth \<and> height image0 = dstHeight)
               \<and> imageOwnsYUVPlanes image0 \<longrightarrow>
               (\<forall>p \<in> set (presentPlanes (yuvPlanes image0)).
                  count_list (released (calls R)) p = 1))
          \<and> (\<not> imageOwnsYUVPlanes image0 \<longrightarrow>
               (\<forall>p \<in> set (presentPlanes (yuvPlanes image0)). p \<notin> set (released (calls R))))
          \<and> (ok R \<and> \<not> (width image0 = dstWidth \<and> height image0 = dstHeight)
               \<and> imageOwnsAlphaPlane image0 \<and> alphaPlane image0 \<noteq> NULL \<longrightarrow>
               count_list (released (calls R)) (alphaPlane image0) = 1)
          \<and> (\<not> imageOwnsAlphaPlane image0 \<longrightarrow>
               alphaPlane image0 \<notin> set (released (calls R))))"
proof -
  note obs = calls_observed [of allocatePlanes getPixelFormatInfo image0
      dstWidth dstHeight imageSizeLimit, folded R_def]
  from inv have none: "presentPlanes (yuvPlanes image0) = []"
    if "aget (yuvPlanes image0) 0 = NULL"
    using that by (simp add: noChromaWithoutLuma_def presentPlanes_def)
  have success: "released (calls R) =
              (if imageOwnsYUVPlanes image0 then presentPlanes (yuvPlanes image0) else [])
              @ (if imageOwnsAlphaPlane image0 \<and> alphaPlane image0 \<noteq> NULL
                 then [alphaPlane image0] else [])
          \<and> resampled (calls R) =
              presentPlanes (yuvPlanes image0)
              @ (if alphaPlane image0 \<noteq> NULL then [alphaPlane image0] else [])"
    if "ok R" and "\<not> (width image0 = dstWidth \<and> height image0 = dstHeight)"
    using that none by (auto simp add: obs)
  have not_yuv: "set (released (calls R)) \<subseteq> {alphaPlane image0}"
    if "\<not> imageOwnsYUVPlanes image0"
    using that by (auto simp add: obs)
  have not_alpha: "set (released (calls R)) \<subseteq> set (presentPlanes (yuvPlanes image0))"
    if "\<not> imageOwnsAlphaPlane image0"
    using that by (auto simp add: obs)
  have failure: "released (calls R) = []" if "\<not> ok R"
    using that by (simp add: obs)
  have once_all: "distinct (released (calls R))" if "planeBuffersDistinct image0"
    using that by (auto simp add: obs planeBuffersDistinct_def split: if_splits)
  have yuv_once: "\<forall>p \<in> set (presentPlanes (yuvPlanes image0)).
                    count_list (released (calls R)) p = 1"
    if d: "planeBuffersDistinct image0" and "ok R"
      and "\<not> (width image0 = dstWidth \<and> height image0 = dstHeight)"
      and "imageOwnsYUVPlanes image0"
  proof
    fix p assume "p \<in> set (presentPlanes (yuvPlanes image0))"
    with success [OF that(2) that(3)] that(4) have "p \<in> set (released (calls R))"
      by simp
    with once_all [OF d] show "count_list (released (calls R)) p = 1"
      by (rule count_list_distinct)
  qed
  have yuv_never: "\<forall>p \<in> set (presentPlanes (yuvPlanes image0)). p \<notin> set (released (calls R))"
    if "planeBuffersDistinct image0" and "\<not> imageOwnsYUVPlanes image0"
    using that by (auto simp add: obs planeBuffersDistinct_def split: if_splits)
  have alpha_once: "count_list (released (calls R)) (alphaPlane image0) = 1"
    if d: "planeBuffersDistinct image0" and "ok R"
      and "\<not> (width image0 = dstWidth \<and> height image0 = dstHeight)"
      and "imageOwnsAlphaPlane image0" and "alphaPlane image0 \<noteq> NULL"
  proof -
    from success [OF that(2) that(3)] that(4) that(5)
    have "alphaPlane image0 \<in> set (released (calls R))"
      by simp
    with once_all [OF d] show ?thesis
      by (rule count_list_distinct)
  qed
  have alpha_never: "alphaPlane image0 \<notin> set (released (calls R))"
    if "planeBuffersDistinct image0" and "\<not> imageOwnsAlphaPlane image0"
    using that presentPlanes_not_NULL [of "yuvPlanes image0"]
    by (auto simp add: obs planeBuffersDistinct_def split: if_splits)
  from success not_yuv not_alpha failure obs(4) yuv_once yuv_never alpha_once alpha_never
  show ?thesis by blast
qed

theorem release_follows_ownership_witness:
  "released (calls
      (avifImageScale True exampleAllocatePlanes exampleFormatInfo
        (exampleImage 8 8 8 (Array3 (Some 10) (Some 11) (Some 12)) True (Some 13) True) 4 4 16))
     = [Some 10, Some 11, Some 12, Some 13]
   \<and> resampled (calls
      (avifImageScale True exampleAllocatePlanes exampleFormatInfo
        (exampleImage 8 8 8 (Array3 (Some 10) (Some 11) (Some 12)) True (Some 13) True) 4 4 16))
     = [Some 10, Some 11, Some 12, Some 13]
   \<and> releasesFollowScaling (calls
      (avifImageScale True exampleAllocatePlanes exampleFormatInfo
        (exampleImage 8 8 8 (Array3 (Some 10) (Some 11) (Some 12)) True (Some 13) True) 4 4 16))
   \<and> count_list (released (calls
      (avifImageScale True exampleAllocatePlanes exampleFormatInfo
        (exampleImage 8 8 8 (Array3 (Some 10) (Some 11) (Some 12)) True (Some 13) True) 4 4 16)))
        (Some 11) = 1
   \<and> count_list (released (calls
      (avifImageScale True exampleAllocatePlanes exampleFormatInfo
        (exampleImage 8 8 8 (Array3 (Some 10) (Some 11) (Some 12)) True (Some 13) True) 4 4 16)))
        (Some 13) = 1
   \<and> released (calls
      (avifImageScale True exampleAllocatePlanes exampleFormatInfo
        (exampleImage 8 8 8 (Array3 (Some 10) (Some 11) (Some 12)) False (Some 13) False) 4 4 16))
     = []
   \<and> Some 11 \<notin> set (released (calls
      (avifImageScale True exampleAllocatePlanes exampleFormatInfo
        (exampleImage 8 8 8 (Array3 (Some 10) (Some 11) (Some 12)) False (Some 13) True) 4 4 16)))
   \<and> released (calls
      (avifImageScale True exampleAllocatePlanes exampleFormatInfo
        (exampleImage 20000 8 8 (Array3 (Some 10) (Some 11) (Some 12)) True (Some 13) True) 4 4 16))
     = []"
proof -
  have inv: "noChromaWithoutLuma
      (exampleImage w h 8 (Array3 (Some 10) (Some 11) (Some 12)) oy (Some 13) oa)"
    and dist: "planeBuffersDistinct
      (exampleImage w h 8 (Array3 (Some 10) (Some 11) (Some 12)) oy (Some 13) oa)"
    for w h oy oa
    by (simp_all add: noChromaWithoutLuma_def planeBuffersDistinct_def presentPlanes_def
        exampleImage_def)
  have owned: "ok (avifImageScale True exampleAllocatePlanes exampleFormatInfo
        (exampleImage 8 8 8 (Array3 (Some 10) (Some 11) (Some 12)) True (Some 13) True) 4 4 16)"
    by (simp add: run_simps)
  have borrowed: "ok (avifImageScale True exampleAllocatePlanes exampleFormatInfo
        (exampleImage 8 8 8 (Array3 (Some 10) (Some 11) (Some 12)) False (Some 13) False) 4 4 16)"
    by (simp add: run_simps)
  have failing: "\<not> ok (avifImageScale True exampleAllocatePlanes exampleFormatInfo
        (exampleImage 20000 8 8 (Array3 (Some 10) (Some 11) (Some 12)) True (Some 13) True) 4 4 16)"
    by (simp add: run_simps)
  note a = release_follows_ownership [OF inv [of 8 8 True True],
      where allocatePlanes = exampleAllocatePlanes and getPixelFormatInfo = exampleFormatInfo
        and dstWidth = 4 and dstHeight = 4 and imageSizeLimit = 16]
  note b = release_follows_ownership [OF inv [of 8 8 False False],
      where allocatePlanes = exampleAllocatePlanes and getPixelFormatInfo = exampleFormatInfo
        and dstWidth = 4 and dstHeight = 4 and imageSizeLimit = 16]
  note c = release_follows_ownership [OF inv [of 8 8 False True],
      where allocatePlanes = exampleAllocatePlanes and getPixelFormatInfo = exampleFormatInfo
        and dstWidth = 4 and dstHeight = 4 and imageSizeLimit = 16]
  note d = release_follows_ownership [OF inv [of 20000 8 True True],
      where allocatePlanes = exampleAllocatePlanes and getPixelFormatInfo = exampleFormatInfo
        and dstWidth = 4 and dstHeight = 4 and imageSizeLimit = 16]
  have yuv: "Some 11 \<in> set (presentPlanes (yuvPlanes
      (exampleImage w h 8 (Array3 (Some 10) (Some 11) (Some 12)) oy (Some 13) oa)))"
    for w h oy oa
    by (simp add: presentPlanes_def exampleImage_def)
  have own: "imageOwnsYUVPlanes
        (exampleImage 8 8 8 (Array3 (Some 10) (Some 11) (Some 12)) True (Some 13) True)"
      "imageOwnsAlphaPlane
        (exampleImage 8 8 8 (Array3 (Some 10) (Some 11) (Some 12)) True (Some 13) True)"
      "alphaPlane
        (exampleImage 8 8 8 (Array3 (Some 10) (Some 11) (Some 12)) True (Some 13) True) = Some 13"
      "width
        (exampleImage 8 8 8 (Array3 (Some 10) (Some 11) (Some 12)) True (Some 13) True) \<noteq> 4"
      "\<not> imageOwnsYUVPlanes
        (exampleImage 8 8 8 (Array3 (Some 10) (Some 11) (Some 12)) False (Some 13) True)"
    by (simp_all add: exampleImage_def)
  from a owned own dist [of 8 8 True True] yuv [of 8 8 True True]
  have once: "count_list (released (calls
      (avifImageScale True exampleAllocatePlanes exampleFormatInfo
        (exampleImage 8 8 8 (Array3 (Some 10) (Some 11) (Some 12)) True (Some 13) True) 4 4 16)))
        (Some 11) = 1"
    "count_list (released (calls
      (avifImageScale True exampleAllocatePlanes exampleFormatInfo
        (exampleImage 8 8 8 (Array3 (Some 10) (Some 11) (Some 12)) True (Some 13) True) 4 4 16)))
        (Some 13) = 1"
    by auto
  from c own dist [of 8 8 False True] yuv [of 8 8 False True]
  have never: "Some 11 \<notin> set (released (calls
      (avifImageScale True exampleAllocatePlanes exampleFormatInfo
        (exampleImage 8 8 8 (Array3 (Some 10) (Some 11) (Some 12)) False (Some 13) True) 4 4 16)))"
    by blast
  from a b d owned borrowed failing once never show ?thesis
    by (simp add: exampleImage_def presentPlanes_def)
qed

section \<open>The scaling entry point and its strides\<close>

lemma scaleYUVPlanes_scale_calls:
  "filter isScaleCall (scaleYUVPlanes im P RB own sw sh suw suh dw dh duw duh idx) =
     map (\<lambda>i. scalePlane (depth im) (aget P i) (aget RB i)
                 (if i = AVIF_CHAN_Y then sw else suw) (if i = AVIF_CHAN_Y then sh else suh)
                 (aget (yuvPlanes im) i) (aget (yuvRowBytes im) i)
                 (if i = AVIF_CHAN_Y then dw else duw) (if i = AVIF_CHAN_Y then dh else duh))
         (filter (\<lambda>i. aget P i \<noteq> NULL) idx)"
  by (induction idx) (auto simp add: Let_def scalePlane_observed)

lemma scaleAlphaPlane_scale_calls:
  "filter isScaleCall (snd (scaleAlphaPlane A im p rb own sw sh dw dh)) =
     (if p \<noteq> NULL
      then [scalePlane (depth (A im AVIF_PLANES_A)) p rb sw sh
              (alphaPlane (A im AVIF_PLANES_A)) (alphaRowBytes (A im AVIF_PLANES_A)) dw dh]
      else [])"
  by (simp add: scaleAlphaPlane_def Let_def scalePlane_observed)

text \<open>
  Claim C7. Take a call that is not a no-op and returns success. The calls it makes to the
  scaling entry points are, in order, one for each present YUV plane (if the luma buffer
  is present) and one for the alpha plane (if present), and no other. For each of them:
  if the depth of the image is greater than 8, the call goes to \<open>ScalePlane_16\<close>, with the
  source stride the row bytes of the source plane divided by 2 and the destination stride
  the row bytes of the destination plane divided by 2; if the depth is 8 or less, the call
  goes to \<open>ScalePlane\<close> with the two row-byte counts as they are. The depth and the
  destination plane are read from the image after the allocation of the plane group.
\<close>

theorem depth_selects_entry_point:
  fixes image0 :: "('fmt, 'z) avifImage_scheme"
    and allocatePlanes getPixelFormatInfo dstWidth dstHeight imageSizeLimit
  defines "R \<equiv> avifImageScale True allocatePlanes getPixelFormatInfo image0
                   dstWidth dstHeight imageSizeLimit"
  defines "imageY \<equiv> allocatePlanes (detachedImage image0 dstWidth dstHeight) AVIF_PLANES_YUV"
  defines "imageA \<equiv> allocatePlanes
                        (if aget (yuvPlanes image0) 0 \<noteq> NULL then imageY
                         else detachedImage image0 dstWidth dstHeight) AVIF_PLANES_A"
  defines "info \<equiv> getPixelFormatInfo (yuvFormat imageY)"
  defines "srcW \<equiv> \<lambda>i :: nat. if i = 0 then width image0
                               else chromaDim (width image0) (chromaShiftX info)"
  defines "srcH \<equiv> \<lambda>i :: nat. if i = 0 then height image0
                               else chromaDim (height image0) (chromaShiftY info)"
  defines "dstW \<equiv> \<lambda>i :: nat. if i = 0 then dstWidth else chromaDim dstWidth (chromaShiftX info)"
  defines "dstH \<equiv> \<lambda>i :: nat. if i = 0 then dstHeight else chromaDim dstHeight (chromaShiftY info)"
  defines "yuvCall \<equiv> \<lambda>i.
             if depth imageY > 8
             then ScalePlane_16 (aget (yuvPlanes image0) i) (aget (yuvRowBytes image0) i div 2)
                    (srcW i) (srcH i)
                    (aget (yuvPlanes imageY) i) (aget (yuvRowBytes imageY) i div 2)
                    (dstW i) (dstH i) kFilterBox
             else ScalePlane (aget (yuvPlanes image0) i) (aget (yuvRowBytes image0) i)
                    (srcW i) (srcH i)
                    (aget (yuvPlanes imageY) i) (aget (yuvRowBytes imageY) i)
                    (dstW i) (dstH i) kFilterBox"
  defines "alphaCall \<equiv>
             if depth imageA > 8
             then ScalePlane_16 (alphaPlane image0) (alphaRowBytes image0 div 2)
                    (width image0) (height image0)
                    (alphaPlane imageA) (alphaRowBytes imageA div 2)
                    dstWidth dstHeight kFilterBox
             else ScalePlane (alphaPlane image0) (alphaRowBytes image0)
                    (width image0) (height image0)
                    (alphaPlane imageA) (alphaRowBytes imageA)
                    dstWidth dstHeight kFilterBox"
  assumes "ok R" and "\<not> (width image0 = dstWidth \<and> height image0 = dstHeight)"
  shows "filter isScaleCall (calls R) =
           (if aget (yuvPlanes image0) 0 \<noteq> NULL
            then map yuvCall (filter (\<lambda>i. aget (yuvPlanes image0) i \<noteq> NULL) [0, 1, 2])
            else [])
           @ (if alphaPlane image0 \<noteq> NULL then [alphaCall] else [])"
proof (cases rule: avifImageScale_outcomes
    [of image0 dstWidth dstHeight allocatePlanes getPixelFormatInfo imageSizeLimit])
  case noop
  with assms show ?thesis by simp
next
  case failed
  with assms show ?thesis by simp
next
  case scaled
  have yuv: "filter isScaleCall
               (snd (scaleYUVGroup allocatePlanes getPixelFormatInfo
                  (detachedImage image0 dstWidth dstHeight)
                  (yuvPlanes image0) (yuvRowBytes image0) (imageOwnsYUVPlanes image0)
                  (width image0) (height image0) dstWidth dstHeight)) =
             (if aget (yuvPlanes image0) 0 \<noteq> NULL
              then map yuvCall (filter (\<lambda>i. aget (yuvPlanes image0) i \<noteq> NULL) [0, 1, 2])
              else [])"
    unfolding scaleYUVGroup_def Let_def plane_indices
    by (simp add: scaleYUVPlanes_scale_calls scalePlane_def yuvCall_def srcW_def srcH_def
        dstW_def dstH_def info_def imageY_def AVIF_CHAN_Y_def AVIF_LIBYUV_FILTER_MODE_def
        del: scaleYUVPlanes.simps)
  have alpha: "filter isScaleCall
               (snd (scaleAlphaPlane allocatePlanes
                  (fst (scaleYUVGroup allocatePlanes getPixelFormatInfo
                    (detachedImage image0 dstWidth dstHeight)
                    (yuvPlanes image0) (yuvRowBytes image0) (imageOwnsYUVPlanes image0)
                    (width image0) (height image0) dstWidth dstHeight))
                  (alphaPlane image0) (alphaRowBytes image0)
                  (imageOwnsAlphaPlane image0) (width image0) (height image0)
                  dstWidth dstHeight)) =
             (if alphaPlane image0 \<noteq> NULL then [alphaCall] else [])"
    by (simp add: scaleAlphaPlane_scale_calls scaleYUVGroup_observed scalePlane_def
        alphaCall_def imageA_def imageY_def AVIF_LIBYUV_FILTER_MODE_def)
  from scaled(3) yuv alpha show ?thesis
    by (simp add: R_def)
qed

theorem depth_selects_entry_point_witness:
  "filter isScaleCall (calls
      (avifImageScale True exampleAllocatePlanes exampleFormatInfo
        (exampleImage 8 6 10 (Array3 (Some 10) (Some 11) NULL) True (Some 13) True) 4 3 16))
     = [ScalePlane_16 (Some 10) 8 8 6 (Some 100) 4 4 3 kFilterBox,
        ScalePlane_16 (Some 11) 4 4 3 (Some 101) 2 2 2 kFilterBox,
        ScalePlane_16 (Some 13) 8 8 6 (Some 103) 4 4 3 kFilterBox]
   \<and> yuvRowBytes (exampleImage 8 6 10 (Array3 (Some 10) (Some 11) NULL) True (Some 13) True)
     = Array3 16 8 8
   \<and> filter isScaleCall (calls
      (avifImageScale True exampleAllocatePlanes exampleFormatInfo
        (exampleImage 8 6 8 (Array3 (Some 10) (Some 11) NULL) True (Some 13) True) 4 3 16))
     = [ScalePlane (Some 10) 8 8 6 (Some 100) 4 4 3 kFilterBox,
        ScalePlane (Some 11) 4 4 3 (Some 101) 2 2 2 kFilterBox,
        ScalePlane (Some 13) 8 8 6 (Some 103) 4 4 3 kFilterBox]
   \<and> yuvRowBytes (exampleImage 8 6 8 (Array3 (Some 10) (Some 11) NULL) True (Some 13) True)
     = Array3 8 4 4"
proof -
  have deep: "ok (avifImageScale True exampleAllocatePlanes exampleFormatInfo
        (exampleImage 8 6 10 (Array3 (Some 10) (Some 11) NULL) True (Some 13) True) 4 3 16)"
    by (simp add: run_simps)
  have shallow: "ok (avifImageScale True exampleAllocatePlanes exampleFormatInfo
        (exampleImage 8 6 8 (Array3 (Some 10) (Some 11) NULL) True (Some 13) True) 4 3 16)"
    by (simp add: run_simps)
  have a: "filter isScaleCall (calls
      (avifImageScale True exampleAllocatePlanes exampleFormatInfo
        (exampleImage 8 6 10 (Array3 (Some 10) (Some 11) NULL) True (Some 13) True) 4 3 16))
     = [ScalePlane_16 (Some 10) 8 8 6 (Some 100) 4 4 3 kFilterBox,
        ScalePlane_16 (Some 11) 4 4 3 (Some 101) 2 2 2 kFilterBox,
        ScalePlane_16 (Some 13) 8 8 6 (Some 103) 4 4 3 kFilterBox]"
    using depth_selects_entry_point [where ?image0.0 =
          "exampleImage 8 6 10 (Array3 (Some 10) (Some 11) NULL) True (Some 13) True"
        and allocatePlanes = exampleAllocatePlanes and getPixelFormatInfo = exampleFormatInfo
        and dstWidth = 4 and dstHeight = 3 and imageSizeLimit = 16, OF deep]
    by (simp add: exampleImage_def exampleAllocatePlanes_def exampleFormatInfo_def
        detachedImage_def chromaDim_def drop_bit_eq_div)
  have b: "filter isScaleCall (calls
      (avifImageScale True exampleAllocatePlanes exampleFormatInfo
        (exampleImage 8 6 8 (Array3 (Some 10) (Some 11) NULL) True (Some 13) True) 4 3 16))
     = [ScalePlane (Some 10) 8 8 6 (Some 100) 4 4 3 kFilterBox,
        ScalePlane (Some 11) 4 4 3 (Some 101) 2 2 2 kFilterBox,
        ScalePlane (Some 13) 8 8 6 (Some 103) 4 4 3 kFilterBox]"
    using depth_selects_entry_point [where ?image0.0 =
          "exampleImage 8 6 8 (Array3 (Some 10) (Some 11) NULL) True (Some 13) True"
        and allocatePlanes = exampleAllocatePlanes and getPixelFormatInfo = exampleFormatInfo
        and dstWidth = 4 and dstHeight = 3 and imageSizeLimit = 16, OF shallow]
    by (simp add: exampleImage_def exampleAllocatePlanes_def exampleFormatInfo_def
        detachedImage_def chromaDim_def drop_bit_eq_div)
  from a b show ?thesis
    by (simp add: exampleImage_def chromaDim_def drop_bit_eq_div)
qed

end
